theory Spec2Isabelle
  imports Complex_Main
begin

section \<open>Conventions of the embedding\<close>

text \<open>
  The engines of \<^verbatim>\<open>neuro_ads/ai\<close> are embedded as HOL functions. Python's unbounded
  integers are \<open>int\<close>; Python's floats are idealised as \<open>real\<close> (no rounding); strings
  are \<open>string\<close>; an insertion-ordered \<^verbatim>\<open>dict\<close> is an association list or a map; an
  exception is the left summand of a sum type. Instants are seconds on one time axis, and
  the \<^verbatim>\<open>.days\<close> of a time difference is its floor division by 86400, as
  \<^verbatim>\<open>timedelta.days\<close> is. The readings of the clock within one analysis cycle
  return the same instant \<open>now\<close>.
\<close>

datatype py_error = ValueError | ZeroDivisionError | KeyError

section \<open>Statistical test library (ab\_testing.py)\<close>

text \<open>
  \<^verbatim>\<open>scipy.stats.norm.cdf\<close> is the distribution function of the standard normal law.
  It belongs to an external library; it is given here by its Maclaurin series
  \<open>1/2 + (1/sqrt (2 pi)) * (\<Sum>n. (-1)^n x^(2n+1) / (n! 2^n (2n+1)))\<close>.
\<close>

definition norm_cdf :: "real \<Rightarrow> real" where
  "norm_cdf x =
     1 / 2 + (1 / sqrt (2 * pi)) *
       (\<Sum>n. (- 1) ^ n * x ^ (2 * n + 1) / (fact n * 2 ^ n * real (2 * n + 1)))"

text \<open>The dictionary returned by \<^verbatim>\<open>_two_proportion_z_test\<close>; the keys that only the
  regular return carries are optional fields.\<close>

record test_result =
  p_value :: real
  effect_size :: real
  winner :: string
  z_score :: "real option"
  confidence_interval :: "(real \<times> real) option"
  p_a :: "real option"
  p_b :: "real option"

definition degenerate_result :: test_result where
  "degenerate_result =
     \<lparr>p_value = 1, effect_size = 0, winner = ''inconclusive'', z_score = None,
      confidence_interval = None, p_a = None, p_b = None\<rparr>"

text \<open>The pooled standard error is \<^verbatim>\<open>math.sqrt\<close> of this product.\<close>

definition pooled_radicand :: "int \<Rightarrow> int \<Rightarrow> int \<Rightarrow> int \<Rightarrow> real" where
  "pooled_radicand successes_a trials_a successes_b trials_b =
     (let p_pool = real_of_int (successes_a + successes_b) / real_of_int (trials_a + trials_b)
      in p_pool * (1 - p_pool) * (1 / real_of_int trials_a + 1 / real_of_int trials_b))"

definition diff_radicand :: "int \<Rightarrow> int \<Rightarrow> int \<Rightarrow> int \<Rightarrow> real" where
  "diff_radicand successes_a trials_a successes_b trials_b =
     (let pa = real_of_int successes_a / real_of_int trials_a;
          pb = real_of_int successes_b / real_of_int trials_b
      in pa * (1 - pa) / real_of_int trials_a + pb * (1 - pb) / real_of_int trials_b)"

text \<open>
  \<^verbatim>\<open>_two_proportion_z_test\<close>. A division by zero raises \<open>ZeroDivisionError\<close> and
  \<^verbatim>\<open>math.sqrt\<close> of a negative number raises \<open>ValueError\<close>.
\<close>

definition two_proportion_z_test :: "int \<Rightarrow> int \<Rightarrow> int \<Rightarrow> int \<Rightarrow> py_error + test_result" where
  "two_proportion_z_test successes_a trials_a successes_b trials_b =
     (if trials_a = 0 \<or> trials_b = 0 then Inr degenerate_result
      else
        let pa = real_of_int successes_a / real_of_int trials_a;
            pb = real_of_int successes_b / real_of_int trials_b
        in
        if trials_a + trials_b = 0 then Inl ZeroDivisionError
        else if pooled_radicand successes_a trials_a successes_b trials_b < 0 then Inl ValueError
        else
          let se = sqrt (pooled_radicand successes_a trials_a successes_b trials_b) in
          if se = 0 then Inr degenerate_result
          else
            let z = (pa - pb) / se;
                pv = 2 * (1 - norm_cdf \<bar>z\<bar>);
                es = (if pb > 0 then \<bar>pa - pb\<bar> / pb else 0);
                w = (if pa > pb then ''A'' else if pb > pa then ''B'' else ''tie'')
            in
            if diff_radicand successes_a trials_a successes_b trials_b < 0 then Inl ValueError
            else
              let se_diff = sqrt (diff_radicand successes_a trials_a successes_b trials_b);
                  margin_error = 1.96 * se_diff;
                  diff = pa - pb
              in Inr \<lparr>p_value = pv, effect_size = es, winner = w, z_score = Some z,
                      confidence_interval = Some (diff - margin_error, diff + margin_error),
                      p_a = Some pa, p_b = Some pb\<rparr>)"

section \<open>Experiment engine: data (models.py, ab\_testing.py)\<close>

text \<open>The fields of the \<^verbatim>\<open>ABTest\<close> model that the engine reads or writes.\<close>

record ab_test =
  test_id :: nat
  campaign :: nat
  test_name :: string
  test_type :: string
  confidence_level :: real
  status :: string
  minimum_sample_size :: int
  test_duration_days :: int
  started_at :: "int option"
  completed_at :: "int option"
  winner_creative :: "nat option"
  statistical_significance :: "real option"

text \<open>One entry of \<^verbatim>\<open>variant_results\<close>.\<close>

record variant_result =
  impressions :: int
  clicks :: int
  conversions :: int
  spend :: real
  ctr :: real
  conversion_rate :: real
  cpc :: real
  cpa :: real
  sample_size :: int

text \<open>One entry of \<^verbatim>\<open>statistical_tests\<close>.\<close>

record pairwise_test =
  variant_a :: string
  variant_b :: string
  metric :: string
  pt_p_value :: real
  pt_confidence_interval :: "(real \<times> real) option"
  pt_effect_size :: real
  pt_winner :: string
  is_significant :: bool

record statistical_results =
  variant_results :: "(string \<times> variant_result) list"
  statistical_tests :: "pairwise_test list"
  sr_is_significant :: bool
  sr_error :: "string option"

text \<open>The thresholds set in \<^verbatim>\<open>ABTestEngine.__init__\<close>.\<close>

definition min_sample_size :: int where "min_sample_size = 100"
definition max_test_duration_days :: int where "max_test_duration_days = 14"
definition significance_threshold :: real where "significance_threshold = 0.05"
definition minimum_effect_size :: real where "minimum_effect_size = 0.1"
definition early_stopping_threshold :: real where "early_stopping_threshold = 0.01"

definition days_between :: "int \<Rightarrow> int \<Rightarrow> int" where
  "days_between now start = (now - start) div 86400"

section \<open>Stop decision\<close>

text \<open>\<^verbatim>\<open>_should_stop_test\<close>, check by check in the order of the source.\<close>

definition should_stop_test :: "int \<Rightarrow> ab_test \<Rightarrow> statistical_results \<Rightarrow> bool \<times> string" where
  "should_stop_test now t sr =
     (if (case started_at t of Some s \<Rightarrow> days_between now s < 3 | None \<Rightarrow> False)
      then (False, ''Test running less than minimum duration'')
      else if (case started_at t of Some s \<Rightarrow> days_between now s \<ge> max_test_duration_days
               | None \<Rightarrow> False)
      then (True, ''Maximum test duration reached'')
      else
        let min_sample_size_met =
              list_all (\<lambda>r. sample_size r \<ge> minimum_sample_size t) (map snd (variant_results sr))
        in
        if \<not> min_sample_size_met then (False, ''Minimum sample size not reached'')
        else
          let very_significant =
                list_ex (\<lambda>x. pt_p_value x < early_stopping_threshold
                              \<and> pt_effect_size x > minimum_effect_size) (statistical_tests sr)
          in
          if very_significant then (True, ''Early stopping - very significant result'')
          else
            let significant =
                  list_ex (\<lambda>x. pt_p_value x < significance_threshold
                                \<and> pt_effect_size x > minimum_effect_size) (statistical_tests sr)
            in
            if significant
               \<and> (case started_at t of Some s \<Rightarrow> days_between now s \<ge> 5 | None \<Rightarrow> False)
            then (True, ''Statistically significant result'')
            else if (case started_at t of Some s \<Rightarrow> days_between now s \<ge> test_duration_days t
                     | None \<Rightarrow> False)
            then (True, ''Planned test duration completed'')
            else (False, ''Continue test''))"

section \<open>Persisted state (models.py)\<close>

text \<open>
  The rows of the tables that the two engines touch, with the columns they read or
  write. A query set is the list of the table's rows in storage order, filtered.
\<close>

record campaign_row =
  campaign_id :: nat
  campaign_name :: string
  total_budget :: real

record ad_set_row =
  adset_id :: nat
  adset_campaign :: nat
  adset_name :: string
  platform_name :: string
  allocated_budget :: real

record ad_creative =
  creative_id :: nat
  creative_ad_set :: nat
  creative_name :: string
  creative_type :: string
  headline :: string
  description :: string
  call_to_action :: string
  destination_url :: string
  image_url :: string
  video_url :: string
  ai_confidence_score :: real
  is_winner :: bool
  is_active :: bool
  created_at :: int

record analytics_row =
  an_campaign :: nat
  an_ad_set :: "nat option"
  an_date :: int
  an_impressions :: int
  an_clicks :: int
  an_conversions :: int
  an_spend :: real
  an_revenue :: real

record budget_optimization =
  bo_id :: nat
  bo_campaign :: nat
  previous_allocation :: "(nat \<times> real) list"
  new_allocation :: "(nat \<times> real) list"
  expected_roas_improvement :: real

record database =
  ad_sets :: "ad_set_row list"
  creatives :: "ad_creative list"
  ab_tests :: "ab_test list"
  analytics :: "analytics_row list"
  budget_optimizations :: "budget_optimization list"

definition date_of :: "int \<Rightarrow> int" where
  "date_of instant = instant div 86400"

section \<open>Experiment engine: collecting and analysing test data\<close>

text \<open>\<^verbatim>\<open>needle in haystack\<close> on strings.\<close>

fun starts_with :: "string \<Rightarrow> string \<Rightarrow> bool" where
  "starts_with [] ys = True"
| "starts_with (x # xs) [] = False"
| "starts_with (x # xs) (y # ys) = (x = y \<and> starts_with xs ys)"

fun contains :: "string \<Rightarrow> string \<Rightarrow> bool" where
  "contains needle [] = (needle = [])"
| "contains needle (y # ys) = (starts_with needle (y # ys) \<or> contains needle ys)"

text \<open>\<^verbatim>\<open>_get_variant_type\<close>; it does not look at the test type.\<close>

definition get_variant_type :: "ad_creative \<Rightarrow> string \<Rightarrow> string" where
  "get_variant_type creative ttype =
     (if contains ''Variant 1'' (creative_name creative) then ''A''
      else if contains ''Variant 2'' (creative_name creative) then ''B''
      else if contains ''Variant 3'' (creative_name creative) then ''C''
      else ''A'')"

text \<open>One dictionary of \<^verbatim>\<open>test_data\<close>.\<close>

record test_row =
  td_creative_id :: nat
  td_creative_name :: string
  td_variant_type :: string
  td_impressions :: int
  td_clicks :: int
  td_conversions :: int
  td_spend :: real
  td_ctr :: real
  td_conversion_rate :: real
  td_cpc :: real
  td_cpa :: real

text \<open>The query \<^verbatim>\<open>AdCreative.objects.filter(ad_set__campaign=..., created_at__gte=...)\<close>.\<close>

definition creative_in_campaign :: "database \<Rightarrow> nat \<Rightarrow> ad_creative \<Rightarrow> bool" where
  "creative_in_campaign db c creative =
     list_ex (\<lambda>a. adset_id a = creative_ad_set creative \<and> adset_campaign a = c) (ad_sets db)"

definition test_creatives :: "database \<Rightarrow> ab_test \<Rightarrow> ad_creative list" where
  "test_creatives db t =
     (case started_at t of
        None \<Rightarrow> []
      | Some s \<Rightarrow> filter (\<lambda>cr. creative_in_campaign db (campaign t) cr \<and> created_at cr \<ge> s)
                    (creatives db))"

text \<open>The analytics rows of the campaign in the window; no creative and no ad set
  takes part in the filter.\<close>

definition campaign_window :: "database \<Rightarrow> nat \<Rightarrow> int \<Rightarrow> int \<Rightarrow> analytics_row list" where
  "campaign_window db c start_date end_date =
     filter (\<lambda>r. an_campaign r = c \<and> an_date r \<ge> start_date \<and> an_date r \<le> end_date)
       (analytics db)"

definition test_row_of :: "int \<Rightarrow> database \<Rightarrow> ab_test \<Rightarrow> ad_creative \<Rightarrow> test_row" where
  "test_row_of now db t creative =
     (let end_date = date_of now;
          start_date = (case started_at t of Some s \<Rightarrow> date_of s | None \<Rightarrow> end_date - 7);
          rows = campaign_window db (campaign t) start_date end_date;
          imps = sum_list (map an_impressions rows);
          clks = sum_list (map an_clicks rows);
          convs = sum_list (map an_conversions rows);
          spnd = sum_list (map an_spend rows)
      in \<lparr>td_creative_id = creative_id creative,
          td_creative_name = creative_name creative,
          td_variant_type = get_variant_type creative (test_type t),
          td_impressions = imps, td_clicks = clks, td_conversions = convs, td_spend = spnd,
          td_ctr = (if imps > 0 then real_of_int clks / real_of_int imps * 100 else 0),
          td_conversion_rate = (if clks > 0 then real_of_int convs / real_of_int clks * 100 else 0),
          td_cpc = (if clks > 0 then spnd / real_of_int clks else 0),
          td_cpa = (if convs > 0 then spnd / real_of_int convs else 0)\<rparr>)"

text \<open>\<^verbatim>\<open>_get_test_data\<close>.\<close>

definition get_test_data :: "int \<Rightarrow> database \<Rightarrow> ab_test \<Rightarrow> test_row list" where
  "get_test_data now db t = map (test_row_of now db t) (test_creatives db t)"

text \<open>Grouping by variant label into an insertion-ordered dictionary of lists.\<close>

definition add_to_group :: "(string \<times> test_row list) list \<Rightarrow> test_row \<Rightarrow> (string \<times> test_row list) list" where
  "add_to_group variants d =
     (if td_variant_type d \<in> set (map fst variants)
      then map (\<lambda>(k, rows). if k = td_variant_type d then (k, rows @ [d]) else (k, rows)) variants
      else variants @ [(td_variant_type d, [d])])"

definition group_by_variant :: "test_row list \<Rightarrow> (string \<times> test_row list) list" where
  "group_by_variant test_data = foldl add_to_group [] test_data"

definition aggregate_variant :: "test_row list \<Rightarrow> variant_result" where
  "aggregate_variant variant_data =
     (let total_impressions = sum_list (map td_impressions variant_data);
          total_clicks = sum_list (map td_clicks variant_data);
          total_conversions = sum_list (map td_conversions variant_data);
          total_spend = sum_list (map td_spend variant_data)
      in \<lparr>impressions = total_impressions, clicks = total_clicks,
          conversions = total_conversions, spend = total_spend,
          ctr = (if total_impressions > 0
                 then real_of_int total_clicks / real_of_int total_impressions * 100 else 0),
          conversion_rate = (if total_clicks > 0
                 then real_of_int total_conversions / real_of_int total_clicks * 100 else 0),
          cpc = (if total_clicks > 0 then total_spend / real_of_int total_clicks else 0),
          cpa = (if total_conversions > 0 then total_spend / real_of_int total_conversions else 0),
          sample_size = total_impressions\<rparr>)"

text \<open>The pairs \<open>(i, j)\<close> with \<open>i < j\<close>, in the order of the two nested loops.\<close>

fun all_pairs :: "'a list \<Rightarrow> ('a \<times> 'a) list" where
  "all_pairs [] = []"
| "all_pairs (x # xs) = map (Pair x) xs @ all_pairs xs"

text \<open>The first exception of a sequence of computations ends it.\<close>

fun collect :: "('e + 'a) list \<Rightarrow> 'e + 'a list" where
  "collect [] = Inr []"
| "collect (Inl e # rs) = Inl e"
| "collect (Inr r # rs) = (case collect rs of Inl e \<Rightarrow> Inl e | Inr xs \<Rightarrow> Inr (r # xs))"

definition primary_metric_of :: "string \<Rightarrow> string" where
  "primary_metric_of ttype =
     (if ttype \<in> set [''headline'', ''description'', ''cta''] then ''ctr''
      else if ttype = ''creative'' then ''conversion_rate''
      else ''ctr'')"

text \<open>
  The body of the inner loop of \<^verbatim>\<open>_perform_pairwise_tests\<close>. The primary metric is
  always \<^verbatim>\<open>'ctr'\<close> or \<^verbatim>\<open>'conversion_rate'\<close>, so the source's test
  \<^verbatim>\<open>primary_metric in ['ctr', 'conversion_rate']\<close> always holds and the call is always
  the one to the two-proportion test, on clicks and impressions. The keys of a dictionary
  are distinct, so looking a name up gives the entry the name was read from.
\<close>

definition pairwise_entry ::
  "string \<Rightarrow> (string \<times> variant_result) \<times> (string \<times> variant_result) \<Rightarrow> py_error + pairwise_test" where
  "pairwise_entry primary_metric ab =
     (case ab of ((name_a, data_a), (name_b, data_b)) \<Rightarrow>
        (case two_proportion_z_test (clicks data_a) (impressions data_a)
                (clicks data_b) (impressions data_b) of
           Inl e \<Rightarrow> Inl e
         | Inr r \<Rightarrow>
             Inr \<lparr>variant_a = name_a, variant_b = name_b, metric = primary_metric,
                  pt_p_value = p_value r, pt_confidence_interval = confidence_interval r,
                  pt_effect_size = effect_size r, pt_winner = winner r,
                  is_significant = (p_value r < significance_threshold)\<rparr>))"

text \<open>\<^verbatim>\<open>_perform_pairwise_tests\<close>.\<close>

definition perform_pairwise_tests ::
  "(string \<times> variant_result) list \<Rightarrow> string \<Rightarrow> py_error + pairwise_test list" where
  "perform_pairwise_tests vr ttype =
     collect (map (pairwise_entry (primary_metric_of ttype)) (all_pairs vr))"

text \<open>\<^verbatim>\<open>_perform_statistical_analysis\<close>; the time stamp of the analysis is left out.\<close>

definition perform_statistical_analysis ::
  "test_row list \<Rightarrow> string \<Rightarrow> py_error + statistical_results" where
  "perform_statistical_analysis test_data ttype =
     (if length test_data < 2
      then Inr \<lparr>variant_results = [], statistical_tests = [], sr_is_significant = False,
               sr_error = Some ''Need at least 2 variants for analysis''\<rparr>
      else
        let vr = map (\<lambda>(name, rows). (name, aggregate_variant rows)) (group_by_variant test_data)
        in case perform_pairwise_tests vr ttype of
             Inl e \<Rightarrow> Inl e
           | Inr tests \<Rightarrow>
               Inr \<lparr>variant_results = vr, statistical_tests = tests,
                    sr_is_significant = list_ex (\<lambda>x. pt_p_value x < significance_threshold) tests,
                    sr_error = None\<rparr>)"


section \<open>Experiment engine: winner, finalisation, analysis cycle\<close>

text \<open>The dictionary returned by \<^verbatim>\<open>_declare_winner\<close>.\<close>

record winner_result =
  wr_winner :: "string option"
  wr_winner_name :: string
  wr_confidence :: real
  wr_improvement :: real
  wr_p_value :: "real option"
  wr_metric :: "string option"
  wr_reason :: string

text \<open>\<^verbatim>\<open>min(..., key=lambda x: x['p_value'])\<close>: the first entry of least p-value.\<close>

fun min_by_p_value :: "pairwise_test \<Rightarrow> pairwise_test list \<Rightarrow> pairwise_test" where
  "min_by_p_value best [] = best"
| "min_by_p_value best (x # xs) =
     min_by_p_value (if pt_p_value x < pt_p_value best then x else best) xs"

text \<open>\<^verbatim>\<open>_declare_winner\<close>.\<close>

definition declare_winner :: "ab_test \<Rightarrow> statistical_results \<Rightarrow> winner_result" where
  "declare_winner t sr =
     (case filter is_significant (statistical_tests sr) of
        [] \<Rightarrow> \<lparr>wr_winner = None, wr_winner_name = ''No clear winner'', wr_confidence = 0,
               wr_improvement = 0, wr_p_value = None, wr_metric = None,
               wr_reason = ''No statistically significant difference found''\<rparr>
      | x # xs \<Rightarrow>
          let best_test = min_by_p_value x xs;
              winner_variant = pt_winner best_test;
              winner_name = (if winner_variant = ''A'' then variant_a best_test
                             else if winner_variant = ''B'' then variant_b best_test
                             else ''Tie'')
          in \<lparr>wr_winner = Some winner_variant, wr_winner_name = winner_name,
              wr_confidence = 1 - pt_p_value best_test,
              wr_improvement = pt_effect_size best_test * 100,
              wr_p_value = Some (pt_p_value best_test), wr_metric = Some (metric best_test),
              wr_reason = ''Statistically significant improvement in '' @ metric best_test\<rparr>)"

text \<open>Whether a creative's label is the winner's name, as both later loops test it.\<close>

definition label_matches :: "string \<Rightarrow> string \<Rightarrow> bool" where
  "label_matches winner_name variant_type =
     ((winner_name = ''A'' \<and> variant_type = ''A'')
      \<or> (winner_name = ''B'' \<and> variant_type = ''B'')
      \<or> (winner_name = ''C'' \<and> variant_type = ''C''))"

text \<open>\<^verbatim>\<open>_find_winning_creative\<close>: the first creative of the test with the winner's label.\<close>

definition find_winning_creative :: "database \<Rightarrow> ab_test \<Rightarrow> string \<Rightarrow> ad_creative option" where
  "find_winning_creative db t winner_name =
     (case filter (\<lambda>cr. label_matches winner_name (get_variant_type cr (test_type t)))
             (test_creatives db t) of
        [] \<Rightarrow> None
      | cr # rest \<Rightarrow> Some cr)"

text \<open>\<^verbatim>\<open>save()\<close> writes the object over the row of the same primary key.\<close>

definition save_creative :: "ad_creative \<Rightarrow> database \<Rightarrow> database" where
  "save_creative cr db =
     db\<lparr>creatives := map (\<lambda>c. if creative_id c = creative_id cr then cr else c) (creatives db)\<rparr>"

definition save_test :: "ab_test \<Rightarrow> database \<Rightarrow> database" where
  "save_test t db =
     db\<lparr>ab_tests := map (\<lambda>x. if test_id x = test_id t then t else x) (ab_tests db)\<rparr>"

text \<open>A winner that is present, non-empty and not the string \<^verbatim>\<open>'Tie'\<close>.\<close>

definition has_winner :: "winner_result \<Rightarrow> bool" where
  "has_winner wr = (case wr_winner wr of None \<Rightarrow> False | Some w \<Rightarrow> w \<noteq> [] \<and> w \<noteq> ''Tie'')"

text \<open>\<^verbatim>\<open>_pause_losing_variants\<close>.\<close>

definition pause_losing_variants :: "database \<Rightarrow> ab_test \<Rightarrow> winner_result \<Rightarrow> database" where
  "pause_losing_variants db t wr =
     (if \<not> has_winner wr then db
      else foldl (\<lambda>d cr. if \<not> label_matches (wr_winner_name wr) (get_variant_type cr (test_type t))
                         then save_creative (cr\<lparr>is_active := False\<rparr>) d else d)
             db (test_creatives db t))"

text \<open>What an analysis cycle returns; the advisory recommendation texts are left out.\<close>

datatype analysis_outcome =
    Failed_reason string
  | Failed_error py_error
  | Continue statistical_results
  | Completed winner_result statistical_results string

text \<open>\<^verbatim>\<open>_finalize_test\<close>.\<close>

definition finalize_test ::
  "int \<Rightarrow> database \<Rightarrow> ab_test \<Rightarrow> statistical_results \<Rightarrow> winner_result \<Rightarrow> string
   \<Rightarrow> database \<times> ab_test \<times> analysis_outcome" where
  "finalize_test now db t sr wr stop_reason =
     (let t1 = t\<lparr>status := ''completed'', completed_at := Some now,
                 statistical_significance := Some (wr_confidence wr)\<rparr>;
          found = (if has_winner wr then find_winning_creative db t1 (wr_winner_name wr)
                   else None);
          t2 = (case found of None \<Rightarrow> t1
                | Some cr \<Rightarrow> t1\<lparr>winner_creative := Some (creative_id cr)\<rparr>);
          db1 = (case found of None \<Rightarrow> db
                 | Some cr \<Rightarrow> save_creative (cr\<lparr>is_winner := True\<rparr>) db);
          db2 = save_test t2 db1;
          db3 = pause_losing_variants db2 t2 wr
      in (db3, t2, Completed wr sr stop_reason))"

text \<open>\<^verbatim>\<open>run_ab_test_analysis\<close>: the new database, the test object and the result.\<close>

definition run_ab_test_analysis ::
  "int \<Rightarrow> database \<Rightarrow> ab_test \<Rightarrow> database \<times> ab_test \<times> analysis_outcome" where
  "run_ab_test_analysis now db t =
     (if status t \<notin> set [''running'']
      then (db, t, Failed_reason (''Test is not running (status: '' @ status t @ '')''))
      else
        let test_data = get_test_data now db t in
        if test_data = [] \<or> length test_data < 2
        then (db, t, Failed_reason ''Insufficient test data'')
        else
          (case perform_statistical_analysis test_data (test_type t) of
             Inl e \<Rightarrow> (db, t, Failed_error e)
           | Inr sr \<Rightarrow>
               (case should_stop_test now t sr of
                  (True, stop_reason) \<Rightarrow>
                    finalize_test now db t sr (declare_winner t sr) stop_reason
                | (False, stop_reason) \<Rightarrow> (db, t, Continue sr))))"


text \<open>A running headline test, started at instant 0, and two result sets for it.\<close>

definition headline_test :: ab_test where
  "headline_test =
     \<lparr>test_id = 1, campaign = 1, test_name = ''Spring - Headline Test'',
      test_type = ''headline'', confidence_level = 0.95, status = ''running'',
      minimum_sample_size = 5000,
      test_duration_days = 7, started_at = Some 0, completed_at = None,
      winner_creative = None, statistical_significance = None\<rparr>"

definition two_variants :: "(string \<times> variant_result) list" where
  "two_variants =
     [(''A'', \<lparr>impressions = 10000, clicks = 800, conversions = 40, spend = 500, ctr = 8,
              conversion_rate = 5, cpc = 0.625, cpa = 12.5, sample_size = 10000\<rparr>),
      (''B'', \<lparr>impressions = 10000, clicks = 600, conversions = 30, spend = 500, ctr = 6,
              conversion_rate = 5, cpc = 5 / 6, cpa = 50 / 3, sample_size = 10000\<rparr>)]"

definition clear_results :: "real \<Rightarrow> statistical_results" where
  "clear_results p =
     \<lparr>variant_results = two_variants,
      statistical_tests =
        [\<lparr>variant_a = ''A'', variant_b = ''B'', metric = ''ctr'', pt_p_value = p,
          pt_confidence_interval = None, pt_effect_size = 1 / 3, pt_winner = ''A'',
          is_significant = (p < 0.05)\<rparr>],
      sr_is_significant = (p < 0.05), sr_error = None\<rparr>"


text \<open>The number of creatives of the test that carry a label.\<close>

definition label_size :: "database \<Rightarrow> ab_test \<Rightarrow> string \<Rightarrow> nat" where
  "label_size db t l =
     length (filter (\<lambda>cr. get_variant_type cr (test_type t) = l) (test_creatives db t))"

text \<open>
  A database for the headline test: one ad set, the two creatives of the test, and one
  analytics row of the campaign with 1000 impressions and the given number of clicks.
\<close>

definition demo_creative :: "nat \<Rightarrow> string \<Rightarrow> ad_creative" where
  "demo_creative i n =
     \<lparr>creative_id = i, creative_ad_set = 1, creative_name = n, creative_type = ''text'',
      headline = ''Test Headline'', description = ''Test Description'',
      call_to_action = ''Learn More'', destination_url = ''https://example.com'',
      image_url = [], video_url = [], ai_confidence_score = 0.8, is_winner = False,
      is_active = True, created_at = 0\<rparr>"

definition demo_db :: "int \<Rightarrow> database" where
  "demo_db k =
     \<lparr>ad_sets = [\<lparr>adset_id = 1, adset_campaign = 1, adset_name = ''Search'',
                  platform_name = ''google'', allocated_budget = 1000\<rparr>],
      creatives = [demo_creative 1 ''Spring - Headline Test - Variant 1'',
                   demo_creative 2 ''Spring - Headline Test - Variant 2''],
      ab_tests = [headline_test],
      analytics = [\<lparr>an_campaign = 1, an_ad_set = Some 1, an_date = 2, an_impressions = 1000,
                    an_clicks = k, an_conversions = 0, an_spend = 10, an_revenue = 0\<rparr>],
      budget_optimizations = []\<rparr>"

definition demo_variant :: "int \<Rightarrow> variant_result" where
  "demo_variant k =
     \<lparr>impressions = 1000, clicks = k, conversions = 0, spend = 10,
      ctr = real_of_int k / 10, conversion_rate = 0, cpc = (if k > 0 then 10 / real_of_int k else 0),
      cpa = 0, sample_size = 1000\<rparr>"

definition demo_results :: "int \<Rightarrow> string \<Rightarrow> (real \<times> real) option \<Rightarrow> statistical_results" where
  "demo_results k w ci =
     \<lparr>variant_results = [(''A'', demo_variant k), (''B'', demo_variant k)],
      statistical_tests =
        [\<lparr>variant_a = ''A'', variant_b = ''B'', metric = ''ctr'', pt_p_value = 1,
          pt_confidence_interval = ci, pt_effect_size = 0, pt_winner = w,
          is_significant = False\<rparr>],
      sr_is_significant = False, sr_error = None\<rparr>"

text \<open>Two variants of a creative test that differ in conversions only.\<close>

definition creative_variants :: "(string \<times> variant_result) list" where
  "creative_variants =
     [(''A'', \<lparr>impressions = 1000, clicks = 100, conversions = 50, spend = 100, ctr = 10,
              conversion_rate = 50, cpc = 1, cpa = 2, sample_size = 1000\<rparr>),
      (''B'', \<lparr>impressions = 1000, clicks = 100, conversions = 5, spend = 100, ctr = 10,
              conversion_rate = 5, cpc = 1, cpa = 20, sample_size = 1000\<rparr>)]"

section \<open>Experiment engine: creating and launching a test\<close>

text \<open>
  A variant dictionary and the test configuration dictionary; a key that is absent is
  \<open>None\<close>.
\<close>

record variant =
  v_creative_type :: "string option"
  v_headline :: "string option"
  v_description :: "string option"
  v_call_to_action :: "string option"
  v_destination_url :: "string option"
  v_image_url :: "string option"
  v_video_url :: "string option"
  v_confidence_score :: "real option"

record test_config =
  cfg_test_type :: "string option"
  cfg_variants :: "variant list option"
  cfg_min_sample_size :: "int option"
  cfg_duration_days :: "int option"
  cfg_traffic_split :: "real option"

datatype validation = Valid | Invalid string

text \<open>\<^verbatim>\<open>_validate_test_config\<close>.\<close>

definition validate_test_config :: "test_config \<Rightarrow> validation" where
  "validate_test_config config =
     (case cfg_test_type config of
        None \<Rightarrow> Invalid ''Missing required field: test_type''
      | Some ttype \<Rightarrow>
          (case cfg_variants config of
             None \<Rightarrow> Invalid ''Missing required field: variants''
           | Some variants \<Rightarrow>
               if ttype \<notin> set [''headline'', ''description'', ''cta'', ''creative'']
               then Invalid ''Invalid test type''
               else if length variants < 2
               then Invalid ''Need at least 2 variants for A/B test''
               else Valid))"

text \<open>\<^verbatim>\<open>TEST_TYPE_CHOICES\<close> of the \<^verbatim>\<open>ABTest\<close> model.\<close>

definition test_type_choices :: "string list" where
  "test_type_choices = [''headline'', ''description'', ''cta'', ''creative'', ''audience'']"

text \<open>\<^verbatim>\<open>str.title()\<close> on ASCII text, and \<^verbatim>\<open>str()\<close> of a natural number.\<close>

definition lower_letters :: string where "lower_letters = ''abcdefghijklmnopqrstuvwxyz''"
definition upper_letters :: string where "upper_letters = ''ABCDEFGHIJKLMNOPQRSTUVWXYZ''"

definition to_upper :: "char \<Rightarrow> char" where
  "to_upper c = (case map_of (zip lower_letters upper_letters) c of Some u \<Rightarrow> u | None \<Rightarrow> c)"

definition to_lower :: "char \<Rightarrow> char" where
  "to_lower c = (case map_of (zip upper_letters lower_letters) c of Some l \<Rightarrow> l | None \<Rightarrow> c)"

fun title_from :: "bool \<Rightarrow> string \<Rightarrow> string" where
  "title_from inside [] = []"
| "title_from inside (c # cs) =
     (if c \<in> set lower_letters \<or> c \<in> set upper_letters
      then (if inside then to_lower c else to_upper c) # title_from True cs
      else c # title_from False cs)"

definition title :: "string \<Rightarrow> string" where
  "title s = title_from False s"

function show_nat :: "nat \<Rightarrow> string" where
  "show_nat n =
     (if n < 10 then [''0123456789'' ! n]
      else show_nat (n div 10) @ [''0123456789'' ! (n mod 10)])"
  by pat_completeness auto
termination
  by (relation "measure id") auto

declare show_nat.simps [simp del]

text \<open>The primary key given to a new row.\<close>

definition fresh_id :: "nat list \<Rightarrow> nat" where
  "fresh_id ids = Suc (fold max ids 0)"

text \<open>
  \<^verbatim>\<open>campaign.adset_set.first()\<close>: the first ad set of the campaign, the rows of the
  table being kept in the order of their primary keys.
\<close>

definition first_ad_set :: "database \<Rightarrow> nat \<Rightarrow> ad_set_row option" where
  "first_ad_set db c =
     (case filter (\<lambda>a. adset_campaign a = c) (ad_sets db) of [] \<Rightarrow> None | a # rest \<Rightarrow> Some a)"

definition get_or :: "'a option \<Rightarrow> 'a \<Rightarrow> 'a" where
  "get_or v dflt = (case v of Some x \<Rightarrow> x | None \<Rightarrow> dflt)"

text \<open>The \<^verbatim>\<open>AdCreative.objects.create\<close> call for the variant of index \<open>i\<close>.\<close>

definition variant_creative ::
  "int \<Rightarrow> ab_test \<Rightarrow> ad_set_row \<Rightarrow> nat \<Rightarrow> variant \<Rightarrow> database \<Rightarrow> ad_creative" where
  "variant_creative now t a i v db =
     \<lparr>creative_id = fresh_id (map creative_id (creatives db)),
      creative_ad_set = adset_id a,
      creative_name = test_name t @ '' - Variant '' @ show_nat (i + 1),
      creative_type = get_or (v_creative_type v) ''text'',
      headline = get_or (v_headline v) ''Test Headline'',
      description = get_or (v_description v) ''Test Description'',
      call_to_action = get_or (v_call_to_action v) ''Learn More'',
      destination_url = get_or (v_destination_url v) ''https://example.com'',
      image_url = get_or (v_image_url v) [],
      video_url = get_or (v_video_url v) [],
      ai_confidence_score = get_or (v_confidence_score v) 0.8,
      is_winner = False, is_active = True, created_at = now\<rparr>"

text \<open>The loop of \<^verbatim>\<open>_create_test_variants\<close> from index \<open>i\<close> on.\<close>

fun create_variants_from ::
  "int \<Rightarrow> ab_test \<Rightarrow> ad_set_row \<Rightarrow> nat \<Rightarrow> variant list \<Rightarrow> database \<Rightarrow> database \<times> ad_creative list" where
  "create_variants_from now t a i [] db = (db, [])"
| "create_variants_from now t a i (v # vs) db =
     (case create_variants_from now t a (i + 1) vs
             (db\<lparr>creatives := creatives db @ [variant_creative now t a i v db]\<rparr>) of
        (db', rest) \<Rightarrow> (db', variant_creative now t a i v db # rest))"

text \<open>\<^verbatim>\<open>_create_test_variants\<close>; without an ad set it raises \<open>ValueError\<close>.\<close>

definition create_test_variants ::
  "int \<Rightarrow> database \<Rightarrow> ab_test \<Rightarrow> variant list \<Rightarrow> py_error + database \<times> ad_creative list" where
  "create_test_variants now db t variants =
     (case first_ad_set db (campaign t) of
        None \<Rightarrow> Inl ValueError
      | Some a \<Rightarrow> Inr (create_variants_from now t a 0 variants db))"

text \<open>
  The result of the launch step: an error text, or the launch details. The launch stands
  for the pushes to the advertising platforms; \<open>launch_test\<close> is the body the source has,
  which simulates a launch that succeeds.
\<close>

record launch_details =
  variants_launched :: nat
  traffic_split :: real
  platforms :: "string list"

type_synonym launch_step = "ab_test \<Rightarrow> ad_creative list \<Rightarrow> test_config \<Rightarrow> string option + launch_details"

definition launch_test :: launch_step where
  "launch_test t variants config =
     Inr \<lparr>variants_launched = length variants,
          traffic_split = get_or (cfg_traffic_split config) 0.5,
          platforms = [''google'', ''meta'', ''linkedin'']\<rparr>"

datatype creation_outcome =
    Create_failed_reason string
  | Create_failed_error py_error
  | Created ab_test "ad_creative list" launch_details

text \<open>\<^verbatim>\<open>ab_test.delete()\<close>: no table refers to a test, so only its row goes.\<close>

definition delete_test :: "ab_test \<Rightarrow> database \<Rightarrow> database" where
  "delete_test t db = db\<lparr>ab_tests := filter (\<lambda>x. test_id x \<noteq> test_id t) (ab_tests db)\<rparr>"

text \<open>The \<^verbatim>\<open>ABTest.objects.create\<close> call.\<close>

definition draft_test :: "database \<Rightarrow> campaign_row \<Rightarrow> test_config \<Rightarrow> string \<Rightarrow> ab_test" where
  "draft_test db c config ttype =
     \<lparr>test_id = fresh_id (map test_id (ab_tests db)),
      campaign = campaign_id c,
      test_name = campaign_name c @ '' - '' @ title ttype @ '' Test'',
      test_type = ttype, confidence_level = 0.95, status = ''draft'',
      minimum_sample_size = get_or (cfg_min_sample_size config) min_sample_size,
      test_duration_days = get_or (cfg_duration_days config) 7,
      started_at = None, completed_at = None, winner_creative = None,
      statistical_significance = None\<rparr>"

text \<open>
  \<^verbatim>\<open>create_automated_ab_test\<close>, with the launch step as a parameter. The records
  are created at the instant \<open>now\<close>; the start of the test is stamped with a later
  reading of the clock, \<open>launched_at\<close>. Reading a key that the configuration lacks
  raises \<open>KeyError\<close>.
\<close>

definition create_automated_ab_test ::
  "launch_step \<Rightarrow> int \<Rightarrow> int \<Rightarrow> database \<Rightarrow> campaign_row \<Rightarrow> test_config
   \<Rightarrow> database \<times> creation_outcome" where
  "create_automated_ab_test launch now launched_at db c config =
     (case validate_test_config config of
        Invalid e \<Rightarrow> (db, Create_failed_reason e)
      | Valid \<Rightarrow>
          (case (cfg_test_type config, cfg_variants config) of
             (Some ttype, Some config_variants) \<Rightarrow>
               let t = draft_test db c config ttype;
                   db1 = db\<lparr>ab_tests := ab_tests db @ [t]\<rparr>
               in (case create_test_variants now db1 t config_variants of
                     Inl e \<Rightarrow> (db1, Create_failed_error e)
                   | Inr (db2, variants) \<Rightarrow>
                       (case launch t variants config of
                          Inr details \<Rightarrow>
                            let t' = t\<lparr>status := ''running'', started_at := Some launched_at\<rparr>
                            in (save_test t' db2, Created t' variants details)
                        | Inl err \<Rightarrow>
                            (delete_test t db2,
                             Create_failed_reason (get_or err ''Failed to launch test''))))
           | _ \<Rightarrow> (db, Create_failed_error KeyError)))"

text \<open>A configuration of \<open>n\<close> variants that rely on the defaults, a campaign, and a
  launch step that fails.\<close>

definition plain_variant :: variant where
  "plain_variant =
     \<lparr>v_creative_type = None, v_headline = None, v_description = None,
      v_call_to_action = None, v_destination_url = None, v_image_url = None,
      v_video_url = None, v_confidence_score = None\<rparr>"

definition demo_config :: "string \<Rightarrow> nat \<Rightarrow> test_config" where
  "demo_config ttype n =
     \<lparr>cfg_test_type = Some ttype, cfg_variants = Some (replicate n plain_variant),
      cfg_min_sample_size = None, cfg_duration_days = None, cfg_traffic_split = None\<rparr>"

definition spring :: campaign_row where
  "spring = \<lparr>campaign_id = 1, campaign_name = ''Spring'', total_budget = 2000\<rparr>"


section \<open>Allocation engine (budget\_optimizer.py)\<close>

text \<open>The thresholds set in \<^verbatim>\<open>BudgetOptimizer.__init__\<close>.\<close>

definition min_budget_change_threshold :: real where "min_budget_change_threshold = 0.05"
definition max_budget_change_per_day :: real where "max_budget_change_per_day = 0.20"
definition confidence_threshold :: real where "confidence_threshold = 0.7"

text \<open>
  One dictionary of \<^verbatim>\<open>metrics['ad_sets']\<close>: the performance data of an ad set with its
  scores, every key present. Detection and redistribution take a list of them.
\<close>

record scored_ad_set =
  sa_ad_set :: ad_set_row
  sa_impressions :: int
  sa_clicks :: int
  sa_conversions :: int
  sa_spend :: real
  sa_revenue :: real
  sa_ctr :: real
  sa_cpc :: real
  sa_cpa :: real
  sa_roas :: real
  sa_conversion_rate :: real
  sa_allocated_budget :: real
  sa_platform :: string
  performance_score :: real
  efficiency_score :: real
  spend_utilization :: real

text \<open>
  An opportunity dictionary, without its formatted reason text. Only an increase carries
  \<^verbatim>\<open>suggested_increase\<close> and only a decrease \<^verbatim>\<open>suggested_decrease\<close>.
\<close>

record opportunity =
  opp_type :: string
  opp_ad_set :: ad_set_row
  current_budget :: real
  opp_confidence :: real
  suggested_increase :: "real option"
  suggested_decrease :: "real option"

definition increase_of :: "scored_ad_set \<Rightarrow> opportunity" where
  "increase_of high_performer =
     \<lparr>opp_type = ''increase_budget'', opp_ad_set = sa_ad_set high_performer,
      current_budget = sa_allocated_budget high_performer,
      opp_confidence = min (performance_score high_performer / 1.5) 1.0,
      suggested_increase = Some (min 0.2 (performance_score high_performer - 1.0)),
      suggested_decrease = None\<rparr>"

definition low_performance_decrease_of :: "scored_ad_set \<Rightarrow> opportunity" where
  "low_performance_decrease_of low_performer =
     \<lparr>opp_type = ''decrease_budget'', opp_ad_set = sa_ad_set low_performer,
      current_budget = sa_allocated_budget low_performer,
      opp_confidence = min (1.0 - performance_score low_performer) 1.0,
      suggested_increase = None,
      suggested_decrease = Some (min 0.3 (1.0 - performance_score low_performer))\<rparr>"

definition underutilized_decrease_of :: "scored_ad_set \<Rightarrow> opportunity" where
  "underutilized_decrease_of underutil =
     \<lparr>opp_type = ''decrease_budget'', opp_ad_set = sa_ad_set underutil,
      current_budget = sa_allocated_budget underutil,
      opp_confidence = 1.0 - spend_utilization underutil,
      suggested_increase = None,
      suggested_decrease = Some (min 0.4 (1.0 - spend_utilization underutil))\<rparr>"

text \<open>The list \<^verbatim>\<open>opportunities\<close> as the three loops leave it, before the filter.\<close>

definition opportunity_candidates :: "scored_ad_set list \<Rightarrow> opportunity list" where
  "opportunity_candidates scored =
     (let high_performers =
            filter (\<lambda>a. performance_score a > 1.2 \<and> spend_utilization a > 0.8) scored;
          low_performers = filter (\<lambda>a. performance_score a < 0.8) scored;
          underutilized = filter (\<lambda>a. spend_utilization a < 0.6) scored
      in map increase_of high_performers
         @ map low_performance_decrease_of
             (filter (\<lambda>a. spend_utilization a > 0.3) low_performers)
         @ map underutilized_decrease_of
             (filter (\<lambda>a. a \<notin> set low_performers) underutilized))"

text \<open>\<^verbatim>\<open>_identify_optimization_opportunities\<close>.\<close>

definition identify_optimization_opportunities :: "scored_ad_set list \<Rightarrow> opportunity list" where
  "identify_optimization_opportunities scored =
     (if length scored < 2 then []
      else filter (\<lambda>opp. opp_confidence opp \<ge> confidence_threshold)
             (opportunity_candidates scored))"

text \<open>The dictionary \<^verbatim>\<open>{ad_set['ad_set'].id: ad_set['allocated_budget'] ...}\<close>.\<close>

definition current_allocation :: "scored_ad_set list \<Rightarrow> (nat \<rightharpoonup> real)" where
  "current_allocation scored =
     fold (\<lambda>a m. m(adset_id (sa_ad_set a) \<mapsto> sa_allocated_budget a)) scored Map.empty"

text \<open>
  The first loop of \<^verbatim>\<open>_calculate_optimal_allocation\<close>, on the allocation and the
  budget to redistribute. Reading a key that a dictionary lacks raises \<open>KeyError\<close>.
\<close>

fun apply_decreases ::
  "opportunity list \<Rightarrow> (nat \<rightharpoonup> real) \<times> real \<Rightarrow> py_error + (nat \<rightharpoonup> real) \<times> real" where
  "apply_decreases [] st = Inr st"
| "apply_decreases (opp # opps) (alloc, budget_to_redistribute) =
     (if opp_type opp = ''decrease_budget''
      then (case alloc (adset_id (opp_ad_set opp)) of
              None \<Rightarrow> Inl KeyError
            | Some cb \<Rightarrow>
                (case suggested_decrease opp of
                   None \<Rightarrow> Inl KeyError
                 | Some sd \<Rightarrow>
                     let decrease_amount = min (cb * sd) (cb * max_budget_change_per_day)
                     in apply_decreases opps
                          (alloc(adset_id (opp_ad_set opp) \<mapsto> cb - decrease_amount),
                           budget_to_redistribute + decrease_amount)))
      else apply_decreases opps (alloc, budget_to_redistribute))"

definition opportunity_weight :: "opportunity \<Rightarrow> py_error + real" where
  "opportunity_weight opp =
     (case suggested_increase opp of
        None \<Rightarrow> Inl KeyError
      | Some si \<Rightarrow> Inr (opp_confidence opp * si))"

text \<open>The second loop, over the increase opportunities.\<close>

fun apply_increases ::
  "real \<Rightarrow> real \<Rightarrow> opportunity list \<Rightarrow> (nat \<rightharpoonup> real) \<Rightarrow> py_error + (nat \<rightharpoonup> real)" where
  "apply_increases budget_to_redistribute total_performance_weight [] alloc = Inr alloc"
| "apply_increases budget_to_redistribute total_performance_weight (opp # opps) alloc =
     (if total_performance_weight > 0
      then (case suggested_increase opp of
              None \<Rightarrow> Inl KeyError
            | Some si \<Rightarrow>
                let weight = (opp_confidence opp * si) / total_performance_weight;
                    increase_amount = budget_to_redistribute * weight
                in (case alloc (adset_id (opp_ad_set opp)) of
                      None \<Rightarrow> Inl KeyError
                    | Some cb \<Rightarrow>
                        let max_increase = cb * max_budget_change_per_day
                        in apply_increases budget_to_redistribute total_performance_weight opps
                             (alloc(adset_id (opp_ad_set opp) \<mapsto>
                                cb + min increase_amount max_increase))))
      else apply_increases budget_to_redistribute total_performance_weight opps alloc)"

text \<open>\<^verbatim>\<open>_calculate_optimal_allocation\<close>; the campaign's total budget is read and not used.\<close>

definition calculate_optimal_allocation ::
  "scored_ad_set list \<Rightarrow> opportunity list \<Rightarrow> py_error + (nat \<rightharpoonup> real)" where
  "calculate_optimal_allocation scored opportunities =
     (case apply_decreases opportunities (current_allocation scored, 0) of
        Inl e \<Rightarrow> Inl e
      | Inr (alloc, budget_to_redistribute) \<Rightarrow>
          let increase_opportunities =
                filter (\<lambda>opp. opp_type opp = ''increase_budget'') opportunities
          in if increase_opportunities \<noteq> [] \<and> budget_to_redistribute > 0
             then (case collect (map opportunity_weight increase_opportunities) of
                     Inl e \<Rightarrow> Inl e
                   | Inr ws \<Rightarrow>
                       apply_increases budget_to_redistribute (sum_list ws)
                         increase_opportunities alloc)
             else Inr alloc)"

text \<open>An ad set of campaign 1 and its scored performance data.\<close>

definition demo_ad_set :: "nat \<Rightarrow> real \<Rightarrow> ad_set_row" where
  "demo_ad_set i b =
     \<lparr>adset_id = i, adset_campaign = 1, adset_name = ''Ad set '' @ show_nat i,
      platform_name = ''google'', allocated_budget = b\<rparr>"

definition demo_scored :: "nat \<Rightarrow> real \<Rightarrow> real \<Rightarrow> real \<Rightarrow> scored_ad_set" where
  "demo_scored i b score util =
     \<lparr>sa_ad_set = demo_ad_set i b, sa_impressions = 10000, sa_clicks = 500, sa_conversions = 25,
      sa_spend = util * b, sa_revenue = 2 * util * b, sa_ctr = 5, sa_cpc = util * b / 500,
      sa_cpa = util * b / 25, sa_roas = (if util * b > 0 then 2 else 0), sa_conversion_rate = 5,
      sa_allocated_budget = b, sa_platform = ''google'', performance_score = score,
      efficiency_score = 0.8, spend_utilization = util\<rparr>"

section \<open>Allocation engine: the apply gate\<close>

text \<open>\<^verbatim>\<open>campaign.adset_set.all()\<close>.\<close>

definition campaign_ad_sets :: "database \<Rightarrow> campaign_row \<Rightarrow> ad_set_row list" where
  "campaign_ad_sets db c = filter (\<lambda>a. adset_campaign a = campaign_id c) (ad_sets db)"

text \<open>\<^verbatim>\<open>_should_apply_changes\<close>.\<close>

definition should_apply_changes :: "database \<Rightarrow> campaign_row \<Rightarrow> (nat \<rightharpoonup> real) \<Rightarrow> bool" where
  "should_apply_changes db c new_alloc =
     (let total_change =
            sum_list (map (\<lambda>a. \<bar>get_or (new_alloc (adset_id a)) (allocated_budget a)
                                  - allocated_budget a\<bar>) (campaign_ad_sets db c));
          total_budget = sum_list (map allocated_budget (campaign_ad_sets db c))
      in if total_budget > 0
         then total_change / total_budget \<ge> min_budget_change_threshold
         else False)"

definition save_ad_set :: "ad_set_row \<Rightarrow> database \<Rightarrow> database" where
  "save_ad_set a db =
     db\<lparr>ad_sets := map (\<lambda>x. if adset_id x = adset_id a then a else x) (ad_sets db)\<rparr>"

text \<open>One entry of \<^verbatim>\<open>changes_made\<close>.\<close>

record budget_change =
  ch_ad_set :: string
  ch_platform :: string
  previous_budget :: real
  new_budget :: real
  change_amount :: real
  change_percentage :: real

text \<open>
  The loop of \<^verbatim>\<open>_apply_budget_optimization\<close> over the ad sets still to visit, on the
  database, the previous allocation and the changes made so far. Each \<^verbatim>\<open>save()\<close> is
  stored at once; the division by a previous budget of 0 raises \<open>ZeroDivisionError\<close>
  after the save of that ad set, and the database as it then is goes with the error.
\<close>

fun write_budgets ::
  "(nat \<rightharpoonup> real) \<Rightarrow> ad_set_row list \<Rightarrow> database \<Rightarrow> (nat \<times> real) list \<Rightarrow> budget_change list
   \<Rightarrow> py_error \<times> database + database \<times> (nat \<times> real) list \<times> budget_change list" where
  "write_budgets new_alloc [] db prev changes_made = Inr (db, prev, changes_made)"
| "write_budgets new_alloc (a # rest) db prev changes_made =
     (let p = allocated_budget a;
          n = get_or (new_alloc (adset_id a)) p
      in if \<bar>n - p\<bar> \<ge> p * min_budget_change_threshold
         then (if p = 0 then Inl (ZeroDivisionError, save_ad_set (a\<lparr>allocated_budget := n\<rparr>) db)
               else write_budgets new_alloc rest (save_ad_set (a\<lparr>allocated_budget := n\<rparr>) db)
                      (prev @ [(adset_id a, p)])
                      (changes_made @
                         [\<lparr>ch_ad_set = adset_name a, ch_platform = platform_name a,
                           previous_budget = p, new_budget = n, change_amount = n - p,
                           change_percentage = (n - p) / p * 100\<rparr>]))
         else write_budgets new_alloc rest db (prev @ [(adset_id a, p)]) changes_made)"

text \<open>\<^verbatim>\<open>_calculate_expected_improvement\<close>.\<close>

definition calculate_expected_improvement :: "opportunity list \<Rightarrow> real" where
  "calculate_expected_improvement opps =
     min (sum_list (map (\<lambda>opp. if opp_type opp = ''increase_budget'' then opp_confidence opp * 0.1
                                else if opp_type opp = ''decrease_budget''
                                then opp_confidence opp * 0.05 else 0) opps)) 0.5"

text \<open>What a budget optimisation returns; the summary text is left out.\<close>

datatype optimization_outcome =
    Opt_failed_reason string
  | Opt_failed_error py_error
  | Optimized nat "budget_change list" real nat

text \<open>
  \<^verbatim>\<open>_apply_budget_optimization\<close>. The audit record is created after the loop, so an
  exception in the loop leaves none. Its summary text and metrics snapshot are left out.
\<close>

definition apply_budget_optimization ::
  "database \<Rightarrow> campaign_row \<Rightarrow> (nat \<rightharpoonup> real) \<Rightarrow> opportunity list
   \<Rightarrow> database \<times> optimization_outcome" where
  "apply_budget_optimization db c new_alloc opps =
     (case write_budgets new_alloc (campaign_ad_sets db c) db [] [] of
        Inl (e, db') \<Rightarrow> (db', Opt_failed_error e)
      | Inr (db', prev, changes_made) \<Rightarrow>
          let expected = calculate_expected_improvement opps;
              record_id = fresh_id (map bo_id (budget_optimizations db'));
              audit = \<lparr>bo_id = record_id, bo_campaign = campaign_id c,
                       previous_allocation = prev,
                       new_allocation = map (\<lambda>(i, p). (i, get_or (new_alloc i) p)) prev,
                       expected_roas_improvement = expected\<rparr>
          in (db'\<lparr>budget_optimizations := budget_optimizations db' @ [audit]\<rparr>,
              Optimized record_id changes_made expected (length opps)))"

text \<open>
  The steps of \<^verbatim>\<open>optimize_campaign_budgets\<close> that follow the metrics: detection,
  allocation, the gate and the application, on the scored ad sets.
\<close>

definition optimize_from_metrics ::
  "database \<Rightarrow> campaign_row \<Rightarrow> scored_ad_set list \<Rightarrow> database \<times> optimization_outcome" where
  "optimize_from_metrics db c scored =
     (let opps = identify_optimization_opportunities scored in
      if opps = [] then (db, Opt_failed_reason ''No optimization opportunities found'')
      else
        (case calculate_optimal_allocation scored opps of
           Inl e \<Rightarrow> (db, Opt_failed_error e)
         | Inr new_alloc \<Rightarrow>
             if should_apply_changes db c new_alloc
             then apply_budget_optimization db c new_alloc opps
             else (db, Opt_failed_reason ''Budget changes below threshold or too risky'')))"

section \<open>Allocation engine: performance data, scoring, entry point\<close>

definition performance_lookback_days :: int where "performance_lookback_days = 7"

text \<open>
  One dictionary of \<^verbatim>\<open>performance_data\<close>. \<^verbatim>\<open>_get_performance_data\<close> builds it
  without the three keys that scoring adds later; a key that is absent is \<open>None\<close>.
\<close>

record performance_row =
  pd_ad_set :: ad_set_row
  pd_impressions :: int
  pd_clicks :: int
  pd_conversions :: int
  pd_spend :: real
  pd_revenue :: real
  pd_ctr :: real
  pd_cpc :: real
  pd_cpa :: real
  pd_roas :: real
  pd_conversion_rate :: real
  pd_allocated_budget :: real
  pd_platform :: string
  pd_performance_score :: "real option"
  pd_efficiency_score :: "real option"
  pd_spend_utilization :: "real option"

text \<open>The dictionary made from the analytics rows of one ad set.\<close>

definition performance_row_of :: "analytics_row list \<Rightarrow> ad_set_row \<Rightarrow> performance_row" where
  "performance_row_of rows a =
     (let imps = sum_list (map an_impressions rows);
          clks = sum_list (map an_clicks rows);
          convs = sum_list (map an_conversions rows);
          spnd = sum_list (map an_spend rows);
          rev = sum_list (map an_revenue rows)
      in \<lparr>pd_ad_set = a, pd_impressions = imps, pd_clicks = clks, pd_conversions = convs,
          pd_spend = spnd, pd_revenue = rev,
          pd_ctr = (if imps > 0 then real_of_int clks / real_of_int imps * 100 else 0),
          pd_cpc = (if clks > 0 then spnd / real_of_int clks else 0),
          pd_cpa = (if convs > 0 then spnd / real_of_int convs else 0),
          pd_roas = (if spnd > 0 then rev / spnd else 0),
          pd_conversion_rate =
            (if clks > 0 then real_of_int convs / real_of_int clks * 100 else 0),
          pd_allocated_budget = allocated_budget a, pd_platform = platform_name a,
          pd_performance_score = None, pd_efficiency_score = None,
          pd_spend_utilization = None\<rparr>)"

text \<open>\<^verbatim>\<open>_get_performance_data\<close>: one dictionary for each ad set of the campaign that
  has analytics rows in the last seven days.\<close>

definition get_performance_data :: "int \<Rightarrow> database \<Rightarrow> campaign_row \<Rightarrow> performance_row list" where
  "get_performance_data now db c =
     (let end_date = date_of now;
          start_date = end_date - performance_lookback_days;
          window = campaign_window db (campaign_id c) start_date end_date
      in concat (map (\<lambda>a. let ad_set_analytics =
                                  filter (\<lambda>r. an_ad_set r = Some (adset_id a)) window
                            in if ad_set_analytics \<noteq> [] then [performance_row_of ad_set_analytics a]
                               else [])
                   (campaign_ad_sets db c)))"

record campaign_averages =
  avg_ctr :: real
  avg_cpc :: real
  avg_cpa :: real
  avg_roas :: real
  avg_conversion_rate :: real

definition campaign_averages_of :: "performance_row list \<Rightarrow> campaign_averages" where
  "campaign_averages_of performance_data =
     (let total_spend = sum_list (map pd_spend performance_data);
          total_revenue = sum_list (map pd_revenue performance_data);
          total_conversions = sum_list (map pd_conversions performance_data);
          total_clicks = sum_list (map pd_clicks performance_data);
          total_impressions = sum_list (map pd_impressions performance_data)
      in \<lparr>avg_ctr = (if total_impressions > 0
                      then real_of_int total_clicks / real_of_int total_impressions * 100 else 0),
          avg_cpc = (if total_clicks > 0 then total_spend / real_of_int total_clicks else 0),
          avg_cpa = (if total_conversions > 0 then total_spend / real_of_int total_conversions
                     else 0),
          avg_roas = (if total_spend > 0 then total_revenue / total_spend else 0),
          avg_conversion_rate =
            (if total_clicks > 0
             then real_of_int total_conversions / real_of_int total_clicks * 100 else 0)\<rparr>)"

text \<open>\<^verbatim>\<open>_calculate_performance_score\<close>.\<close>

definition calculate_performance_score :: "performance_row \<Rightarrow> campaign_averages \<Rightarrow> real" where
  "calculate_performance_score d av =
     (if avg_roas av > 0 then min (pd_roas d / avg_roas av) 2.0 * 0.4 else 0)
     + (if avg_conversion_rate av > 0
        then min (pd_conversion_rate d / avg_conversion_rate av) 2.0 * 0.25 else 0)
     + (if avg_ctr av > 0 then min (pd_ctr d / avg_ctr av) 2.0 * 0.2 else 0)
     + (if avg_cpa av > 0 \<and> pd_cpa d > 0 then min (avg_cpa av / pd_cpa d) 2.0 * 0.15 else 0)"

text \<open>
  \<^verbatim>\<open>_calculate_efficiency_score\<close>: its first statement reads the key
  \<^verbatim>\<open>'spend_utilization'\<close> of the dictionary, which raises \<open>KeyError\<close> when the key is
  absent.
\<close>

definition calculate_efficiency_score :: "performance_row \<Rightarrow> py_error + real" where
  "calculate_efficiency_score d =
     (case pd_spend_utilization d of
        None \<Rightarrow> Inl KeyError
      | Some utilization \<Rightarrow>
          let roas = pd_roas d;
              utilization_score =
                (if 0.8 \<le> utilization \<and> utilization \<le> 0.95 then 1.0
                 else if utilization < 0.8 then utilization / 0.8
                 else max 0.5 (1.0 - (utilization - 0.95) * 2));
              roas_score = (if roas > 0 then min (roas / 3.0) 1.0 else 0)
          in Inr (utilization_score * 0.6 + roas_score * 0.4))"

text \<open>
  The body of the scoring loop of \<^verbatim>\<open>_calculate_performance_metrics\<close>, in the order of
  its three statements: the performance score is stored, then the efficiency score is
  computed from the dictionary as it then is, then the spend utilization is stored.
\<close>

definition score_row :: "campaign_averages \<Rightarrow> performance_row \<Rightarrow> py_error + performance_row" where
  "score_row av d =
     (let d1 = d\<lparr>pd_performance_score := Some (calculate_performance_score d av)\<rparr>
      in case calculate_efficiency_score d1 of
           Inl e \<Rightarrow> Inl e
         | Inr eff \<Rightarrow>
             Inr (d1\<lparr>pd_efficiency_score := Some eff,
                     pd_spend_utilization :=
                       Some (if pd_allocated_budget d1 > 0
                             then pd_spend d1 / pd_allocated_budget d1 else 0)\<rparr>))"

text \<open>Reading the three scores of a dictionary.\<close>

definition scored_of :: "performance_row \<Rightarrow> py_error + scored_ad_set" where
  "scored_of d =
     (case (pd_performance_score d, pd_efficiency_score d, pd_spend_utilization d) of
        (Some ps, Some es, Some su) \<Rightarrow>
          Inr \<lparr>sa_ad_set = pd_ad_set d, sa_impressions = pd_impressions d,
               sa_clicks = pd_clicks d, sa_conversions = pd_conversions d,
               sa_spend = pd_spend d, sa_revenue = pd_revenue d, sa_ctr = pd_ctr d,
               sa_cpc = pd_cpc d, sa_cpa = pd_cpa d, sa_roas = pd_roas d,
               sa_conversion_rate = pd_conversion_rate d,
               sa_allocated_budget = pd_allocated_budget d, sa_platform = pd_platform d,
               performance_score = ps, efficiency_score = es, spend_utilization = su\<rparr>
      | _ \<Rightarrow> Inl KeyError)"

text \<open>
  \<^verbatim>\<open>_calculate_performance_metrics\<close>: the scored ad sets, ranked by performance score
  from the highest, equal scores in their former order.
\<close>

definition calculate_performance_metrics :: "performance_row list \<Rightarrow> py_error + scored_ad_set list" where
  "calculate_performance_metrics performance_data =
     (if performance_data = [] then Inr []
      else
        (case collect (map (score_row (campaign_averages_of performance_data)) performance_data) of
           Inl e \<Rightarrow> Inl e
         | Inr ds \<Rightarrow>
             (case collect (map scored_of ds) of
                Inl e \<Rightarrow> Inl e
              | Inr scored \<Rightarrow> Inr (sort_key (\<lambda>x. - performance_score x) scored))))"

text \<open>\<^verbatim>\<open>optimize_campaign_budgets\<close>; every exception is caught and returned as an error.\<close>

definition optimize_campaign_budgets ::
  "int \<Rightarrow> database \<Rightarrow> campaign_row \<Rightarrow> database \<times> optimization_outcome" where
  "optimize_campaign_budgets now db c =
     (let performance_data = get_performance_data now db c in
      if performance_data = [] then (db, Opt_failed_reason ''Insufficient performance data'')
      else
        (case calculate_performance_metrics performance_data of
           Inl e \<Rightarrow> (db, Opt_failed_error e)
         | Inr scored \<Rightarrow> optimize_from_metrics db c scored))"

text \<open>
  A database whose campaign 1 has two ad sets of budget 1000, each with one analytics row
  on day 5: the first spent 200, the second 900.
\<close>

definition optimizer_db :: database where
  "optimizer_db =
     \<lparr>ad_sets = [demo_ad_set 1 1000, demo_ad_set 2 1000], creatives = [], ab_tests = [],
      analytics =
        [\<lparr>an_campaign = 1, an_ad_set = Some 1, an_date = 5, an_impressions = 10000,
          an_clicks = 500, an_conversions = 25, an_spend = 200, an_revenue = 400\<rparr>,
         \<lparr>an_campaign = 1, an_ad_set = Some 2, an_date = 5, an_impressions = 10000,
          an_clicks = 500, an_conversions = 25, an_spend = 900, an_revenue = 1800\<rparr>],
      budget_optimizations = []\<rparr>"

text \<open>A database whose campaign 1 has an ad set with budget 1000 and one with budget 0,
  and their scored data: both spend far less than their budget.\<close>

definition zero_budget_db :: database where
  "zero_budget_db =
     \<lparr>ad_sets = [demo_ad_set 1 1000, demo_ad_set 2 0], creatives = [], ab_tests = [],
      analytics = [], budget_optimizations = []\<rparr>"

definition zero_budget_scored :: "scored_ad_set list" where
  "zero_budget_scored = [demo_scored 1 1000 1.0 0.2, demo_scored 2 0 1.0 0]"

section \<open>Properties of the statistical test library\<close>

lemma norm_cdf_zero: "norm_cdf 0 = 1 / 2"
  by (simp add: norm_cdf_def)

text \<open>
  C5. For non-negative integer inputs, when a trials count is 0 or the pooled standard
  error is 0, the two-proportion test returns exactly p-value 1, effect size 0 and winner
  inconclusive, and raises nothing.
\<close>

theorem two_proportion_degenerate:
  assumes "0 \<le> successes_a" and "0 \<le> trials_a" and "0 \<le> successes_b" and "0 \<le> trials_b"
    and "trials_a = 0 \<or> trials_b = 0
         \<or> sqrt (pooled_radicand successes_a trials_a successes_b trials_b) = 0"
  shows "two_proportion_z_test successes_a trials_a successes_b trials_b
         = Inr \<lparr>p_value = 1, effect_size = 0, winner = ''inconclusive'', z_score = None,
                confidence_interval = None, p_a = None, p_b = None\<rparr>"
proof (cases "trials_a = 0 \<or> trials_b = 0")
  case True
  then show ?thesis
    by (simp add: two_proportion_z_test_def degenerate_result_def)
next
  case False
  with assms have pos: "trials_a + trials_b \<noteq> 0" by linarith
  from False assms have se: "sqrt (pooled_radicand successes_a trials_a successes_b trials_b) = 0"
    by blast
  then have "pooled_radicand successes_a trials_a successes_b trials_b = 0" by simp
  with False pos show ?thesis
    by (simp add: two_proportion_z_test_def degenerate_result_def Let_def)
qed

theorem two_proportion_degenerate_witness:
  "two_proportion_z_test 5 0 7 20 = Inr \<lparr>p_value = 1, effect_size = 0, winner = ''inconclusive'',
       z_score = None, confidence_interval = None, p_a = None, p_b = None\<rparr>
   \<and> two_proportion_z_test 0 10 0 20 = Inr \<lparr>p_value = 1, effect_size = 0,
       winner = ''inconclusive'', z_score = None, confidence_interval = None, p_a = None,
       p_b = None\<rparr>"
proof
  show "two_proportion_z_test 5 0 7 20 = Inr \<lparr>p_value = 1, effect_size = 0,
       winner = ''inconclusive'', z_score = None, confidence_interval = None, p_a = None,
       p_b = None\<rparr>"
    using two_proportion_degenerate [of 5 0 7 20] by simp
  show "two_proportion_z_test 0 10 0 20 = Inr \<lparr>p_value = 1, effect_size = 0,
       winner = ''inconclusive'', z_score = None, confidence_interval = None, p_a = None,
       p_b = None\<rparr>"
    using two_proportion_degenerate [of 0 10 0 20] by (simp add: pooled_radicand_def)
qed


section \<open>Properties of the stop decision\<close>

text \<open>An analysis cycle reaches the stop decision only for a test whose start is stamped.\<close>

lemma unstamped_test_has_no_data:
  "started_at t = None \<Longrightarrow>
   get_test_data now db t = []
   \<and> (status t = ''running'' \<longrightarrow>
        run_ab_test_analysis now db t = (db, t, Failed_reason ''Insufficient test data''))"
  by (simp add: get_test_data_def test_creatives_def run_ab_test_analysis_def)

lemma analysis_sample_size_is_impressions:
  "perform_statistical_analysis test_data ttype = Inr sr \<Longrightarrow>
   \<forall>r \<in> set (variant_results sr). sample_size (snd r) = impressions (snd r)"
  by (auto simp: perform_statistical_analysis_def aggregate_variant_def Let_def
      split: if_splits sum.splits)

lemma should_stop_started:
  "started_at t = Some s \<Longrightarrow>
   should_stop_test now t sr =
     (if days_between now s < 3 then (False, ''Test running less than minimum duration'')
      else if days_between now s \<ge> 14 then (True, ''Maximum test duration reached'')
      else if \<not> (\<forall>r \<in> set (variant_results sr). sample_size (snd r) \<ge> minimum_sample_size t)
      then (False, ''Minimum sample size not reached'')
      else if (\<exists>x \<in> set (statistical_tests sr). pt_p_value x < 0.01 \<and> pt_effect_size x > 0.1)
      then (True, ''Early stopping - very significant result'')
      else if (\<exists>x \<in> set (statistical_tests sr). pt_p_value x < 0.05 \<and> pt_effect_size x > 0.1)
              \<and> days_between now s \<ge> 5
      then (True, ''Statistically significant result'')
      else if days_between now s \<ge> test_duration_days t
      then (True, ''Planned test duration completed'')
      else (False, ''Continue test''))"
  unfolding should_stop_test_def Let_def list_all_iff list_ex_iff max_test_duration_days_def
    early_stopping_threshold_def significance_threshold_def minimum_effect_size_def
  by (simp only: option.case set_map ball_simps image_iff bex_simps)

text \<open>
  C1. The stop decision of a test whose start is stamped (as it is for every running test
  that reaches the decision) follows the priority cascade: under 3 days it does not stop;
  else from 14 days on it stops with the maximum-duration reason; else a variant whose
  sample size (its impressions) is below the minimum keeps it running; else a pairwise test
  with p-value below 0.01 and effect size above 0.10 stops it early, also before day 5;
  else one with p-value below 0.05 and effect size above 0.10 stops it from day 5 on; else
  it stops once the planned duration is reached; otherwise it continues.
\<close>

theorem should_stop_cascade:
  assumes "started_at t = Some s"
  shows
    "(days_between now s < 3 \<longrightarrow> \<not> fst (should_stop_test now t sr))
   \<and> (3 \<le> days_between now s \<and> 14 \<le> days_between now s \<longrightarrow>
        should_stop_test now t sr = (True, ''Maximum test duration reached''))
   \<and> (3 \<le> days_between now s \<and> days_between now s < 14
        \<and> (\<exists>r \<in> set (variant_results sr). sample_size (snd r) < minimum_sample_size t) \<longrightarrow>
        \<not> fst (should_stop_test now t sr))
   \<and> (3 \<le> days_between now s \<and> days_between now s < 14
        \<and> (\<forall>r \<in> set (variant_results sr). minimum_sample_size t \<le> sample_size (snd r))
        \<and> (\<exists>x \<in> set (statistical_tests sr). pt_p_value x < 0.01 \<and> pt_effect_size x > 0.10) \<longrightarrow>
        should_stop_test now t sr = (True, ''Early stopping - very significant result''))
   \<and> (3 \<le> days_between now s \<and> days_between now s < 14
        \<and> (\<forall>r \<in> set (variant_results sr). minimum_sample_size t \<le> sample_size (snd r))
        \<and> \<not> (\<exists>x \<in> set (statistical_tests sr). pt_p_value x < 0.01 \<and> pt_effect_size x > 0.10)
        \<and> (\<exists>x \<in> set (statistical_tests sr). pt_p_value x < 0.05 \<and> pt_effect_size x > 0.10)
        \<and> 5 \<le> days_between now s \<longrightarrow>
        should_stop_test now t sr = (True, ''Statistically significant result''))
   \<and> (3 \<le> days_between now s \<and> days_between now s < 14
        \<and> (\<forall>r \<in> set (variant_results sr). minimum_sample_size t \<le> sample_size (snd r))
        \<and> \<not> (\<exists>x \<in> set (statistical_tests sr). pt_p_value x < 0.01 \<and> pt_effect_size x > 0.10)
        \<and> \<not> ((\<exists>x \<in> set (statistical_tests sr). pt_p_value x < 0.05 \<and> pt_effect_size x > 0.10)
               \<and> 5 \<le> days_between now s)
        \<and> test_duration_days t \<le> days_between now s \<longrightarrow>
        should_stop_test now t sr = (True, ''Planned test duration completed''))
   \<and> (3 \<le> days_between now s \<and> days_between now s < 14
        \<and> (\<forall>r \<in> set (variant_results sr). minimum_sample_size t \<le> sample_size (snd r))
        \<and> \<not> (\<exists>x \<in> set (statistical_tests sr). pt_p_value x < 0.01 \<and> pt_effect_size x > 0.10)
        \<and> \<not> ((\<exists>x \<in> set (statistical_tests sr). pt_p_value x < 0.05 \<and> pt_effect_size x > 0.10)
               \<and> 5 \<le> days_between now s)
        \<and> days_between now s < test_duration_days t \<longrightarrow>
        should_stop_test now t sr = (False, ''Continue test''))"
proof -
  note eq = should_stop_started [OF assms, of now sr]
  have r1: "days_between now s < 3 \<longrightarrow> \<not> fst (should_stop_test now t sr)"
    by (simp add: eq)
  have r2: "3 \<le> days_between now s \<and> 14 \<le> days_between now s \<longrightarrow>
        should_stop_test now t sr = (True, ''Maximum test duration reached'')"
    by (simp add: eq)
  have r3: "3 \<le> days_between now s \<and> days_between now s < 14
        \<and> (\<exists>r \<in> set (variant_results sr). sample_size (snd r) < minimum_sample_size t) \<longrightarrow>
        \<not> fst (should_stop_test now t sr)"
    unfolding eq by (auto simp: not_le)
  have r4: "3 \<le> days_between now s \<and> days_between now s < 14
        \<and> (\<forall>r \<in> set (variant_results sr). minimum_sample_size t \<le> sample_size (snd r))
        \<and> (\<exists>x \<in> set (statistical_tests sr). pt_p_value x < 0.01 \<and> pt_effect_size x > 0.10) \<longrightarrow>
        should_stop_test now t sr = (True, ''Early stopping - very significant result'')"
    unfolding eq by auto
  have r5: "3 \<le> days_between now s \<and> days_between now s < 14
        \<and> (\<forall>r \<in> set (variant_results sr). minimum_sample_size t \<le> sample_size (snd r))
        \<and> \<not> (\<exists>x \<in> set (statistical_tests sr). pt_p_value x < 0.01 \<and> pt_effect_size x > 0.10)
        \<and> (\<exists>x \<in> set (statistical_tests sr). pt_p_value x < 0.05 \<and> pt_effect_size x > 0.10)
        \<and> 5 \<le> days_between now s \<longrightarrow>
        should_stop_test now t sr = (True, ''Statistically significant result'')"
    unfolding eq by auto
  have r6: "3 \<le> days_between now s \<and> days_between now s < 14
        \<and> (\<forall>r \<in> set (variant_results sr). minimum_sample_size t \<le> sample_size (snd r))
        \<and> \<not> (\<exists>x \<in> set (statistical_tests sr). pt_p_value x < 0.01 \<and> pt_effect_size x > 0.10)
        \<and> \<not> ((\<exists>x \<in> set (statistical_tests sr). pt_p_value x < 0.05 \<and> pt_effect_size x > 0.10)
               \<and> 5 \<le> days_between now s)
        \<and> test_duration_days t \<le> days_between now s \<longrightarrow>
        should_stop_test now t sr = (True, ''Planned test duration completed'')"
    unfolding eq by auto
  have r7: "3 \<le> days_between now s \<and> days_between now s < 14
        \<and> (\<forall>r \<in> set (variant_results sr). minimum_sample_size t \<le> sample_size (snd r))
        \<and> \<not> (\<exists>x \<in> set (statistical_tests sr). pt_p_value x < 0.01 \<and> pt_effect_size x > 0.10)
        \<and> \<not> ((\<exists>x \<in> set (statistical_tests sr). pt_p_value x < 0.05 \<and> pt_effect_size x > 0.10)
               \<and> 5 \<le> days_between now s)
        \<and> days_between now s < test_duration_days t \<longrightarrow>
        should_stop_test now t sr = (False, ''Continue test'')"
    unfolding eq by auto
  from r1 r2 r3 r4 r5 r6 r7 show ?thesis by blast
qed

theorem should_stop_cascade_witness:
  "\<not> fst (should_stop_test (2 * 86400) headline_test (clear_results 0.000001))
   \<and> should_stop_test (20 * 86400) headline_test (clear_results 0.9)
       = (True, ''Maximum test duration reached'')
   \<and> should_stop_test (4 * 86400) headline_test (clear_results 0.001)
       = (True, ''Early stopping - very significant result'')
   \<and> should_stop_test (6 * 86400) headline_test (clear_results 0.03)
       = (True, ''Statistically significant result'')
   \<and> should_stop_test (4 * 86400) headline_test (clear_results 0.03)
       = (False, ''Continue test'')
   \<and> should_stop_test (8 * 86400) headline_test (clear_results 0.9)
       = (True, ''Planned test duration completed'')"
proof -
  have s: "started_at headline_test = Some 0"
    by (simp add: headline_test_def)
  have v: "set (variant_results (clear_results p)) = set two_variants" for p
    by (simp add: clear_results_def)
  have m: "\<forall>r \<in> set two_variants. minimum_sample_size headline_test \<le> sample_size (snd r)"
    by (simp add: two_variants_def headline_test_def)
  have x: "set (statistical_tests (clear_results p))
           = {\<lparr>variant_a = ''A'', variant_b = ''B'', metric = ''ctr'', pt_p_value = p,
          pt_confidence_interval = None, pt_effect_size = 1 / 3, pt_winner = ''A'',
          is_significant = (p < 0.05)\<rparr>}" for p
    by (simp add: clear_results_def)
  have d: "test_duration_days headline_test = 7"
    by (simp add: headline_test_def)
  have c1: "\<not> fst (should_stop_test (2 * 86400) headline_test (clear_results 0.000001))"
    using should_stop_cascade [OF s, of "2 * 86400" "clear_results 0.000001"]
    by (simp add: days_between_def)
  have c2: "should_stop_test (20 * 86400) headline_test (clear_results 0.9)
       = (True, ''Maximum test duration reached'')"
    using should_stop_cascade [OF s, of "20 * 86400" "clear_results 0.9"]
    by (simp add: days_between_def)
  have c3: "should_stop_test (4 * 86400) headline_test (clear_results 0.001)
       = (True, ''Early stopping - very significant result'')"
    using should_stop_cascade [OF s, of "4 * 86400" "clear_results 0.001"] m
    by (simp add: days_between_def v x)
  have c4: "should_stop_test (6 * 86400) headline_test (clear_results 0.03)
       = (True, ''Statistically significant result'')"
    using should_stop_cascade [OF s, of "6 * 86400" "clear_results 0.03"] m
    by (simp add: days_between_def v x)
  have c5: "should_stop_test (4 * 86400) headline_test (clear_results 0.03)
       = (False, ''Continue test'')"
    using should_stop_cascade [OF s, of "4 * 86400" "clear_results 0.03"] m
    by (simp add: days_between_def v x d)
  have c6: "should_stop_test (8 * 86400) headline_test (clear_results 0.9)
       = (True, ''Planned test duration completed'')"
    using should_stop_cascade [OF s, of "8 * 86400" "clear_results 0.9"] m
    by (simp add: days_between_def v x d)
  from c1 c2 c3 c4 c5 c6 show ?thesis by blast
qed

section \<open>Properties of the analysis of test data\<close>

lemma add_to_group_keys:
  "set (map fst (add_to_group vs d)) = insert (td_variant_type d) (set (map fst vs))"
  by (auto simp: add_to_group_def image_iff split: if_splits prod.splits) force+

lemma add_to_group_rows:
  assumes "\<forall>(k, rows) \<in> set vs. rows = filter (\<lambda>x. td_variant_type x = k) ds"
    and "set (map fst vs) = td_variant_type ` set ds"
  shows "\<forall>(k, rows) \<in> set (add_to_group vs d). rows = filter (\<lambda>x. td_variant_type x = k) (ds @ [d])"
proof (cases "td_variant_type d \<in> set (map fst vs)")
  case True
  with assms(1) show ?thesis
    by (auto simp: add_to_group_def split: if_splits)
next
  case False
  with assms(2) have "filter (\<lambda>x. td_variant_type x = td_variant_type d) ds = []"
    by (auto simp: filter_empty_conv) (metis imageI)
  with False assms(1) show ?thesis
    by (auto simp: add_to_group_def split: if_splits; force)
qed

lemma group_by_variant_rows:
  "(\<forall>(k, rows) \<in> set (group_by_variant ds). rows = filter (\<lambda>x. td_variant_type x = k) ds)
   \<and> set (map fst (group_by_variant ds)) = td_variant_type ` set ds"
proof (induction ds rule: rev_induct)
  case Nil
  show ?case by (simp add: group_by_variant_def)
next
  case (snoc d ds)
  have step: "group_by_variant (ds @ [d]) = add_to_group (group_by_variant ds) d"
    by (simp add: group_by_variant_def)
  from snoc have a: "\<forall>(k, rows) \<in> set (group_by_variant ds). rows = filter (\<lambda>x. td_variant_type x = k) ds"
    and b: "set (map fst (group_by_variant ds)) = td_variant_type ` set ds" by blast+
  show ?case
    unfolding step using add_to_group_rows [OF a b, of d] add_to_group_keys [of "group_by_variant ds" d] b
    by auto
qed

lemma sum_list_const_int:
  "\<forall>x \<in> set xs. f x = (c::int) \<Longrightarrow> sum_list (map f xs) = int (length xs) * c"
  by (induction xs) (auto simp: algebra_simps)

lemma aggregate_same:
  assumes "\<forall>d \<in> set rows. td_clicks d = c \<and> td_impressions d = i"
  shows "clicks (aggregate_variant rows) = int (length rows) * c
       \<and> impressions (aggregate_variant rows) = int (length rows) * i"
  using assms by (simp add: aggregate_variant_def Let_def sum_list_const_int)

lemma all_pairs_mem: "(a, b) \<in> set (all_pairs xs) \<Longrightarrow> a \<in> set xs \<and> b \<in> set xs"
  by (induction xs) auto

lemma collect_mem: "collect rs = Inr xs \<Longrightarrow> x \<in> set xs \<Longrightarrow> Inr x \<in> set rs"
proof (induction rs arbitrary: xs)
  case Nil
  then show ?case by simp
next
  case (Cons r rs)
  then show ?case
    by (cases r) (auto split: sum.splits)
qed

lemma z_test_equal_inputs:
  assumes "two_proportion_z_test c i c i = Inr r"
  shows "p_value r = 1 \<and> effect_size r = 0 \<and> (winner r = ''tie'' \<or> winner r = ''inconclusive'')"
  using assms
  by (auto simp: two_proportion_z_test_def degenerate_result_def Let_def norm_cdf_zero
      split: if_splits)

lemma pairwise_tests_mem:
  assumes "perform_pairwise_tests vr ttype = Inr tests" and "x \<in> set tests"
  shows "\<exists>na da nb db r. (na, da) \<in> set vr \<and> (nb, db) \<in> set vr
           \<and> variant_a x = na \<and> variant_b x = nb
           \<and> two_proportion_z_test (clicks da) (impressions da) (clicks db) (impressions db) = Inr r
           \<and> pt_p_value x = p_value r \<and> pt_effect_size x = effect_size r
           \<and> pt_winner x = winner r \<and> is_significant x = (p_value r < 0.05)
           \<and> metric x = primary_metric_of ttype"
proof -
  from assms have "Inr x \<in> set (map (pairwise_entry (primary_metric_of ttype)) (all_pairs vr))"
    unfolding perform_pairwise_tests_def by (rule collect_mem)
  then obtain ab where ab: "ab \<in> set (all_pairs vr)"
    and e: "pairwise_entry (primary_metric_of ttype) ab = Inr x" by auto
  obtain na da nb db where abeq: "ab = ((na, da), (nb, db))" by (metis surj_pair)
  from ab abeq have m: "(na, da) \<in> set vr" "(nb, db) \<in> set vr"
    using all_pairs_mem [of "(na, da)" "(nb, db)" vr] by auto
  from e abeq obtain r where
    r: "two_proportion_z_test (clicks da) (impressions da) (clicks db) (impressions db) = Inr r"
    and x: "x = \<lparr>variant_a = na, variant_b = nb, metric = primary_metric_of ttype,
                  pt_p_value = p_value r, pt_confidence_interval = confidence_interval r,
                  pt_effect_size = effect_size r, pt_winner = winner r,
                  is_significant = (p_value r < significance_threshold)\<rparr>"
    by (auto simp: pairwise_entry_def split: sum.splits)
  from m r x show ?thesis
    by (auto simp: significance_threshold_def)
qed


lemma test_rows_same:
  assumes "d \<in> set (get_test_data now db t)" and "d' \<in> set (get_test_data now db t)"
  shows "td_impressions d = td_impressions d' \<and> td_clicks d = td_clicks d'
       \<and> td_conversions d = td_conversions d' \<and> td_spend d = td_spend d'"
  using assms by (auto simp: get_test_data_def test_row_of_def Let_def)

lemma test_rows_label_count:
  "length (filter (\<lambda>d. td_variant_type d = l) (get_test_data now db t)) = label_size db t l"
proof -
  have "(\<lambda>d. td_variant_type d = l) \<circ> test_row_of now db t
        = (\<lambda>cr. get_variant_type cr (test_type t) = l)"
    by (auto simp: test_row_of_def Let_def fun_eq_iff)
  then show ?thesis
    by (simp add: get_test_data_def label_size_def filter_map)
qed

lemma variant_results_entry:
  assumes "perform_statistical_analysis (get_test_data now db t) ttype = Inr sr"
    and "(n, v) \<in> set (variant_results sr)"
  shows "\<exists>c i. (\<forall>d \<in> set (get_test_data now db t). td_clicks d = c \<and> td_impressions d = i)
          \<and> clicks v = int (label_size db t n) * c
          \<and> impressions v = int (label_size db t n) * i"
proof -
  let ?td = "get_test_data now db t"
  from assms have big: "\<not> length ?td < 2"
    by (auto simp: perform_statistical_analysis_def split: if_splits)
  with assms(1) have vr: "variant_results sr
      = map (\<lambda>(name, rows). (name, aggregate_variant rows)) (group_by_variant ?td)"
    by (auto simp: perform_statistical_analysis_def Let_def split: sum.splits)
  with assms(2) obtain rows where g: "(n, rows) \<in> set (group_by_variant ?td)"
    and v: "v = aggregate_variant rows" by auto
  from g have rows: "rows = filter (\<lambda>x. td_variant_type x = n) ?td"
    using group_by_variant_rows [of ?td] by auto
  from big obtain d0 where d0: "d0 \<in> set ?td"
    by (cases ?td) auto
  have same: "\<forall>d \<in> set ?td. td_clicks d = td_clicks d0 \<and> td_impressions d = td_impressions d0"
    using test_rows_same [OF _ d0] by blast
  then have "\<forall>d \<in> set rows. td_clicks d = td_clicks d0 \<and> td_impressions d = td_impressions d0"
    by (simp add: rows)
  from aggregate_same [OF this] same show ?thesis
    unfolding v rows test_rows_label_count by blast
qed

text \<open>
  C2 (as amended). Every creative of the test is given the same campaign-wide metrics.
  Whenever the analysis returns, two labels with the same number of creatives have equal
  aggregated clicks and impressions, and every pairwise test between two such labels has
  p-value 1, effect size 0, is not significant and names \<open>tie\<close> or \<open>inconclusive\<close> as
  its winner, never a variant; and when all tested pairs are of that kind, no winner is
  declared.
\<close>

theorem campaign_wide_metrics_no_winner:
  assumes "perform_statistical_analysis (get_test_data now db t) (test_type t) = Inr sr"
  shows "(\<forall>d \<in> set (get_test_data now db t). \<forall>d' \<in> set (get_test_data now db t).
            td_impressions d = td_impressions d' \<and> td_clicks d = td_clicks d'
            \<and> td_conversions d = td_conversions d' \<and> td_spend d = td_spend d')
       \<and> (\<forall>a \<in> set (variant_results sr). \<forall>b \<in> set (variant_results sr).
            label_size db t (fst a) = label_size db t (fst b) \<longrightarrow>
            clicks (snd a) = clicks (snd b) \<and> impressions (snd a) = impressions (snd b))
       \<and> (\<forall>x \<in> set (statistical_tests sr).
            label_size db t (variant_a x) = label_size db t (variant_b x) \<longrightarrow>
            pt_p_value x = 1 \<and> pt_effect_size x = 0 \<and> \<not> is_significant x
            \<and> (pt_winner x = ''tie'' \<or> pt_winner x = ''inconclusive''))
       \<and> ((\<forall>x \<in> set (statistical_tests sr).
              label_size db t (variant_a x) = label_size db t (variant_b x)) \<longrightarrow>
            wr_winner (declare_winner t sr) = None)"
proof -
  let ?td = "get_test_data now db t"
  have p1: "\<forall>d \<in> set ?td. \<forall>d' \<in> set ?td.
            td_impressions d = td_impressions d' \<and> td_clicks d = td_clicks d'
            \<and> td_conversions d = td_conversions d' \<and> td_spend d = td_spend d'"
    using test_rows_same by blast
  have eqv: "clicks va = clicks vb \<and> impressions va = impressions vb"
    if a: "(na, va) \<in> set (variant_results sr)" and b: "(nb, vb) \<in> set (variant_results sr)"
      and sz: "label_size db t na = label_size db t nb" for na va nb vb
  proof -
    from variant_results_entry [OF assms a] obtain c i where
      ca: "\<forall>d \<in> set ?td. td_clicks d = c \<and> td_impressions d = i"
      and va: "clicks va = int (label_size db t na) * c" "impressions va = int (label_size db t na) * i"
      by blast
    from variant_results_entry [OF assms b] obtain c' i' where
      cb: "\<forall>d \<in> set ?td. td_clicks d = c' \<and> td_impressions d = i'"
      and vb: "clicks vb = int (label_size db t nb) * c'" "impressions vb = int (label_size db t nb) * i'"
      by blast
    from a assms have "?td \<noteq> []"
      by (auto simp: perform_statistical_analysis_def split: if_splits)
    then obtain d0 where "d0 \<in> set ?td" by (cases ?td) auto
    with ca cb have "c = c'" "i = i'" by auto
    with va vb sz show ?thesis by simp
  qed
  have p2: "\<forall>a \<in> set (variant_results sr). \<forall>b \<in> set (variant_results sr).
            label_size db t (fst a) = label_size db t (fst b) \<longrightarrow>
            clicks (snd a) = clicks (snd b) \<and> impressions (snd a) = impressions (snd b)"
    using eqv by (metis prod.collapse)
  have tst: "pt_p_value x = 1 \<and> pt_effect_size x = 0 \<and> \<not> is_significant x
            \<and> (pt_winner x = ''tie'' \<or> pt_winner x = ''inconclusive'')"
    if x: "x \<in> set (statistical_tests sr)"
      and sz: "label_size db t (variant_a x) = label_size db t (variant_b x)" for x
  proof -
    from x assms have pw: "perform_pairwise_tests (variant_results sr) (test_type t)
        = Inr (statistical_tests sr)"
      by (auto simp: perform_statistical_analysis_def Let_def split: if_splits sum.splits)
    from pairwise_tests_mem [OF pw x] obtain na da nb db' r where
      m: "(na, da) \<in> set (variant_results sr)" "(nb, db') \<in> set (variant_results sr)"
      and n: "variant_a x = na" "variant_b x = nb"
      and z: "two_proportion_z_test (clicks da) (impressions da) (clicks db') (impressions db') = Inr r"
      and r: "pt_p_value x = p_value r" "pt_effect_size x = effect_size r"
        "pt_winner x = winner r" "is_significant x = (p_value r < 0.05)"
      by blast
    from eqv [OF m] sz n have "clicks da = clicks db'" "impressions da = impressions db'" by auto
    with z have "two_proportion_z_test (clicks da) (impressions da) (clicks da) (impressions da) = Inr r"
      by simp
    from z_test_equal_inputs [OF this] r show ?thesis by simp
  qed
  have p3: "\<forall>x \<in> set (statistical_tests sr).
            label_size db t (variant_a x) = label_size db t (variant_b x) \<longrightarrow>
            pt_p_value x = 1 \<and> pt_effect_size x = 0 \<and> \<not> is_significant x
            \<and> (pt_winner x = ''tie'' \<or> pt_winner x = ''inconclusive'')"
    using tst by blast
  have p4: "(\<forall>x \<in> set (statistical_tests sr).
              label_size db t (variant_a x) = label_size db t (variant_b x)) \<longrightarrow>
            wr_winner (declare_winner t sr) = None"
  proof
    assume all: "\<forall>x \<in> set (statistical_tests sr).
              label_size db t (variant_a x) = label_size db t (variant_b x)"
    with tst have "\<forall>x \<in> set (statistical_tests sr). \<not> is_significant x" by blast
    then have "filter is_significant (statistical_tests sr) = []"
      by (simp add: filter_empty_conv)
    then show "wr_winner (declare_winner t sr) = None"
      by (simp add: declare_winner_def)
  qed
  from p1 p2 p3 p4 show ?thesis by blast
qed

lemmas demo_simps = get_test_data_def demo_db_def demo_creative_def headline_test_def test_creatives_def
  creative_in_campaign_def test_row_of_def campaign_window_def date_of_def get_variant_type_def
  perform_statistical_analysis_def group_by_variant_def add_to_group_def aggregate_variant_def
  perform_pairwise_tests_def pairwise_entry_def primary_metric_of_def two_proportion_z_test_def
  degenerate_result_def pooled_radicand_def diff_radicand_def significance_threshold_def
  demo_results_def demo_variant_def norm_cdf_zero label_size_def Let_def

text \<open>
  C2, as stated, fails: with no clicks in the campaign, the two labels of a standard
  two-variant test have equal data and the pairwise test names \<open>inconclusive\<close>, not
  \<open>tie\<close>, as its winner.
\<close>

theorem equal_labels_inconclusive_counterexample:
  "label_size (demo_db 0) headline_test ''A'' = label_size (demo_db 0) headline_test ''B''
   \<and> perform_statistical_analysis (get_test_data (6 * 86400) (demo_db 0) headline_test) ''headline''
       = Inr (demo_results 0 ''inconclusive'' None)"
  by (simp add: demo_simps)

lemma demo_tie:
  "perform_statistical_analysis (get_test_data (6 * 86400) (demo_db 50) headline_test)
       (test_type headline_test)
       = Inr (demo_results 50 ''tie''
               (Some (- (1.96 * sqrt (19 / 200000)), 1.96 * sqrt (19 / 200000))))"
  by (simp add: demo_simps)

theorem campaign_wide_metrics_no_winner_witness:
  "perform_statistical_analysis (get_test_data (6 * 86400) (demo_db 50) headline_test)
       (test_type headline_test)
     = Inr (demo_results 50 ''tie''
               (Some (- (1.96 * sqrt (19 / 200000)), 1.96 * sqrt (19 / 200000))))
   \<and> label_size (demo_db 50) headline_test ''A'' = 1
   \<and> label_size (demo_db 50) headline_test ''B'' = 1
   \<and> wr_winner (declare_winner headline_test (demo_results 50 ''tie''
               (Some (- (1.96 * sqrt (19 / 200000)), 1.96 * sqrt (19 / 200000))))) = None"
proof -
  have l: "label_size (demo_db 50) headline_test ''A'' = 1"
      "label_size (demo_db 50) headline_test ''B'' = 1"
    by (simp_all add: demo_simps)
  have x: "set (statistical_tests (demo_results 50 ''tie'' ci))
      = {\<lparr>variant_a = ''A'', variant_b = ''B'', metric = ''ctr'', pt_p_value = 1,
          pt_confidence_interval = ci, pt_effect_size = 0, pt_winner = ''tie'',
          is_significant = False\<rparr>}" for ci
    by (simp add: demo_results_def)
  from campaign_wide_metrics_no_winner [OF demo_tie] l
  have "wr_winner (declare_winner headline_test (demo_results 50 ''tie''
               (Some (- (1.96 * sqrt (19 / 200000)), 1.96 * sqrt (19 / 200000))))) = None"
    by (simp add: x)
  with demo_tie l show ?thesis by blast
qed

section \<open>Properties of the pairwise tests\<close>

lemma pairwise_ignores_conversions:
  "perform_pairwise_tests (map (\<lambda>(n, v). (n, v\<lparr>conversions := f n v\<rparr>)) vr) ttype
   = perform_pairwise_tests vr ttype"
proof -
  have ap: "all_pairs (map g xs) = map (\<lambda>(a, b). (g a, g b)) (all_pairs xs)" for g :: "'a \<Rightarrow> 'a" and xs
    by (induction xs) auto
  have "pairwise_entry m ((\<lambda>(a, b). ((\<lambda>(n, v). (n, v\<lparr>conversions := f n v\<rparr>)) a, (\<lambda>(n, v). (n, v\<lparr>conversions := f n v\<rparr>)) b)) ab)
        = pairwise_entry m ab" for m ab
    by (cases ab) (auto simp: pairwise_entry_def split: prod.splits)
  then show ?thesis
    by (simp add: perform_pairwise_tests_def ap comp_def)
qed

text \<open>
  C6. For a test of type \<open>creative\<close> the pairwise test is labelled with the conversion
  rate but is computed from clicks and impressions: on two variants with equal clicks and
  impressions and conversions 50 against 5, it reports a tie with effect size 0, which is the
  two-proportion test on (100, 1000, 100, 1000); on conversions and clicks (50, 100, 5, 100)
  that test names A with effect size 9.
\<close>

theorem creative_test_uses_clicks_and_impressions:
  "perform_pairwise_tests creative_variants ''creative''
     = Inr [\<lparr>variant_a = ''A'', variant_b = ''B'', metric = ''conversion_rate'', pt_p_value = 1,
             pt_confidence_interval = Some (- (1.96 * sqrt (9 / 50000)), 1.96 * sqrt (9 / 50000)),
             pt_effect_size = 0, pt_winner = ''tie'', is_significant = False\<rparr>]
   \<and> map_sum id (\<lambda>r. (winner r, effect_size r, p_a r, p_b r)) (two_proportion_z_test 100 1000 100 1000)
       = Inr (''tie'', 0, Some (1 / 10), Some (1 / 10))
   \<and> map_sum id (\<lambda>r. (winner r, effect_size r, p_a r, p_b r)) (two_proportion_z_test 50 100 5 100)
       = Inr (''A'', 9, Some (1 / 2), Some (1 / 20))"
  by (simp add: perform_pairwise_tests_def creative_variants_def pairwise_entry_def
      primary_metric_of_def two_proportion_z_test_def pooled_radicand_def diff_radicand_def
      significance_threshold_def norm_cdf_zero Let_def)

section \<open>Properties of the analysis cycle\<close>

text \<open>
  C9, as stated, fails: an analysis request for a draft test is refused.
\<close>

theorem analysis_rejects_draft_counterexample:
  "run_ab_test_analysis (6 * 86400) (demo_db 50) (headline_test\<lparr>status := ''draft''\<rparr>)
   = (demo_db 50, headline_test\<lparr>status := ''draft''\<rparr>,
      Failed_reason ''Test is not running (status: draft)'')"
  by (simp add: run_ab_test_analysis_def)

text \<open>
  C9 (as amended). An analysis request is accepted only for a running test. For every
  other status (draft, completed, cancelled among them) the call returns the failure
  \<open>Test is not running (status: ...)\<close> and leaves the database and the test as they
  were; for a running test the call never returns that refusal.
\<close>

theorem analysis_only_when_running:
  "(status t \<noteq> ''running'' \<longrightarrow>
      run_ab_test_analysis now db t
        = (db, t, Failed_reason (''Test is not running (status: '' @ status t @ '')'')))
   \<and> (status t = ''running'' \<longrightarrow>
      (\<forall>s. snd (snd (run_ab_test_analysis now db t))
            \<noteq> Failed_reason (''Test is not running (status: '' @ s @ '')'')))"
  by (auto simp: run_ab_test_analysis_def finalize_test_def Let_def split: sum.splits prod.splits bool.splits)

theorem analysis_only_when_running_witness:
  "run_ab_test_analysis (6 * 86400) (demo_db 50) (headline_test\<lparr>status := ''completed''\<rparr>)
     = (demo_db 50, headline_test\<lparr>status := ''completed''\<rparr>,
        Failed_reason ''Test is not running (status: completed)'')
   \<and> snd (snd (run_ab_test_analysis (6 * 86400) (demo_db 50) headline_test))
       \<noteq> Failed_reason ''Test is not running (status: running)''"
proof -
  have a: "status (headline_test\<lparr>status := ''completed''\<rparr>) \<noteq> ''running''"
    by simp
  have b: "status headline_test = ''running''"
    by (simp add: headline_test_def)
  from analysis_only_when_running [of "headline_test\<lparr>status := ''completed''\<rparr>"
      "6 * 86400" "demo_db 50"] a
  have c: "run_ab_test_analysis (6 * 86400) (demo_db 50) (headline_test\<lparr>status := ''completed''\<rparr>)
     = (demo_db 50, headline_test\<lparr>status := ''completed''\<rparr>,
        Failed_reason ''Test is not running (status: completed)'')"
    by simp
  from analysis_only_when_running [of headline_test "6 * 86400" "demo_db 50"] b
  have "snd (snd (run_ab_test_analysis (6 * 86400) (demo_db 50) headline_test))
       \<noteq> Failed_reason (''Test is not running (status: '' @ ''running'' @ '')'')"
    by blast
  with c show ?thesis by simp
qed

section \<open>Properties of test creation\<close>









text \<open>
  C10, as stated, fails: \<open>audience\<close>, one of the five types of the model, is rejected
  with two variants supplied.
\<close>

theorem audience_rejected_counterexample:
  "''audience'' \<in> set test_type_choices
   \<and> validate_test_config (demo_config ''audience'' 2) = Invalid ''Invalid test type''
   \<and> create_automated_ab_test launch_test 0 5 (demo_db 50) spring (demo_config ''audience'' 2)
       = (demo_db 50, Create_failed_reason ''Invalid test type'')"
  by (simp add: test_type_choices_def validate_test_config_def demo_config_def
      create_automated_ab_test_def)

text \<open>
  C10 (as amended). Validation accepts a configuration exactly when it has a test type
  among headline, description, cta and creative and at least two variants; every other
  configuration, one of type audience among them, is rejected with an error, and the
  operation then creates nothing.
\<close>

theorem validation_accepts_four_types:
  "(validate_test_config config = Valid \<longleftrightarrow>
      (\<exists>ttype vs. cfg_test_type config = Some ttype \<and> cfg_variants config = Some vs
         \<and> ttype \<in> {''headline'', ''description'', ''cta'', ''creative''} \<and> 2 \<le> length vs))
   \<and> (validate_test_config config \<noteq> Valid \<longrightarrow>
        (\<exists>e. create_automated_ab_test launch now launched_at db c config = (db, Create_failed_reason e)))"
  by (auto simp: validate_test_config_def create_automated_ab_test_def
      split: option.splits if_splits validation.splits)

theorem validation_accepts_four_types_witness:
  "validate_test_config (demo_config ''creative'' 2) = Valid
   \<and> validate_test_config (demo_config ''headline'' 2) = Valid
   \<and> validate_test_config (demo_config ''description'' 2) = Valid
   \<and> validate_test_config (demo_config ''cta'' 2) = Valid
   \<and> (\<exists>e. create_automated_ab_test launch_test 0 5 (demo_db 50) spring (demo_config ''cta'' 1)
         = (demo_db 50, Create_failed_reason e))"
proof -
  have v: "validate_test_config (demo_config ty 2) = Valid"
    if "ty \<in> {''headline'', ''description'', ''cta'', ''creative''}" for ty
    using validation_accepts_four_types [of "demo_config ty 2"] that
    by (simp add: demo_config_def)
  have n: "validate_test_config (demo_config ''cta'' 1) \<noteq> Valid"
    using validation_accepts_four_types [of "demo_config ''cta'' 1"]
    by (simp add: demo_config_def)
  with validation_accepts_four_types [of "demo_config ''cta'' 1" launch_test 0 5 "demo_db 50" spring]
  have "\<exists>e. create_automated_ab_test launch_test 0 5 (demo_db 50) spring (demo_config ''cta'' 1)
         = (demo_db 50, Create_failed_reason e)" by blast
  with v show ?thesis by simp
qed

section \<open>Properties of opportunity detection\<close>

text \<open>
  C7, as stated, fails: for an ad set with score 0.5 and utilization 0.4 beside a second
  scored ad set, opportunity detection returns no opportunity at all.
\<close>

theorem underperformer_gets_no_opportunity_counterexample:
  "identify_optimization_opportunities
     [demo_scored 1 1000 0.5 0.4, demo_scored 2 1000 1.0 0.9] = []"
  by (simp add: identify_optimization_opportunities_def opportunity_candidates_def
      demo_scored_def low_performance_decrease_of_def confidence_threshold_def Let_def)

lemma filter_eq_single:
  "distinct xs \<Longrightarrow> filter (\<lambda>x. Q x \<and> x = a) xs = (if Q a \<and> a \<in> set xs then [a] else [])"
  by (induction xs) (auto simp: filter_empty_conv)

lemma filter_by_id:
  assumes f: "\<And>x. opp_ad_set (f x) = sa_ad_set x"
    and "distinct (map (\<lambda>x. adset_id (sa_ad_set x)) scored)" and "a \<in> set scored"
  shows "filter (\<lambda>opp. adset_id (opp_ad_set opp) = adset_id (sa_ad_set a))
           (map f (filter Q scored))
         = (if Q a then [f a] else [])"
proof -
  have d: "distinct scored" using assms(2) by (simp add: distinct_map)
  have eq: "x = a" if "x \<in> set scored" "adset_id (sa_ad_set x) = adset_id (sa_ad_set a)" for x
    using assms that by (meson distinct_map inj_onD)
  have "filter (\<lambda>opp. adset_id (opp_ad_set opp) = adset_id (sa_ad_set a)) (map f (filter Q scored))
        = map f (filter (\<lambda>x. Q x \<and> adset_id (sa_ad_set x) = adset_id (sa_ad_set a)) scored)"
    by (simp add: filter_map comp_def f conj_commute)
  also have "filter (\<lambda>x. Q x \<and> adset_id (sa_ad_set x) = adset_id (sa_ad_set a)) scored
        = filter (\<lambda>x. Q x \<and> x = a) scored"
    by (rule filter_cong) (auto dest: eq)
  also have "\<dots> = (if Q a then [a] else [])"
    using filter_eq_single [OF d, of Q a] assms(3) by simp
  finally show ?thesis by simp
qed

text \<open>
  C7 (as amended). For an ad set with score 0.5 and utilization 0.4 among at least two
  scored ad sets of the campaign, the three rules put exactly one candidate for that ad
  set on the list, the decrease of the underperformance rule (the underutilization rule
  adds no second one); its confidence is 0.5, below the acceptance threshold 0.7, so the
  opportunities returned contain none for that ad set.
\<close>

theorem underperformer_single_candidate_filtered:
  assumes "a \<in> set scored" and "2 \<le> length scored"
    and "distinct (map (\<lambda>x. adset_id (sa_ad_set x)) scored)"
    and "performance_score a = 0.5" and "spend_utilization a = 0.4"
  shows "filter (\<lambda>opp. adset_id (opp_ad_set opp) = adset_id (sa_ad_set a))
           (opportunity_candidates scored) = [low_performance_decrease_of a]
       \<and> opp_confidence (low_performance_decrease_of a) = 0.5
       \<and> filter (\<lambda>opp. adset_id (opp_ad_set opp) = adset_id (sa_ad_set a))
           (identify_optimization_opportunities scored) = []"
proof -
  let ?mine = "\<lambda>opp. adset_id (opp_ad_set opp) = adset_id (sa_ad_set a)"
  let ?low = "filter (\<lambda>a. performance_score a < 0.8) scored"
  note fid = filter_by_id [OF _ assms(3) assms(1)]
  have h: "filter ?mine (map increase_of
             (filter (\<lambda>a. performance_score a > 1.2 \<and> spend_utilization a > 0.8) scored)) = []"
    using assms(4) by (subst fid) (simp_all add: increase_of_def)
  have "filter ?mine (map low_performance_decrease_of
             (filter (\<lambda>a. spend_utilization a > 0.3) ?low))
        = filter ?mine (map low_performance_decrease_of
             (filter (\<lambda>a. performance_score a < 0.8 \<and> spend_utilization a > 0.3) scored))"
    by (simp add: conj_commute)
  also have "\<dots> = [low_performance_decrease_of a]"
    using assms(4,5) by (subst fid) (simp_all add: low_performance_decrease_of_def)
  finally have l: "filter ?mine (map low_performance_decrease_of
             (filter (\<lambda>a. spend_utilization a > 0.3) ?low)) = [low_performance_decrease_of a]" .
  have "filter ?mine (map underutilized_decrease_of
             (filter (\<lambda>a. a \<notin> set ?low) (filter (\<lambda>a. spend_utilization a < 0.6) scored)))
        = filter ?mine (map underutilized_decrease_of
             (filter (\<lambda>a. spend_utilization a < 0.6 \<and> a \<notin> set ?low) scored))"
    by (simp add: conj_commute)
  also have "\<dots> = []"
    using assms(1,4) by (subst fid) (simp_all add: underutilized_decrease_of_def)
  finally have u: "filter ?mine (map underutilized_decrease_of
             (filter (\<lambda>a. a \<notin> set ?low) (filter (\<lambda>a. spend_utilization a < 0.6) scored))) = []" .
  have c: "filter ?mine (opportunity_candidates scored) = [low_performance_decrease_of a]"
    unfolding opportunity_candidates_def Let_def filter_append h l u by simp
  have conf: "opp_confidence (low_performance_decrease_of a) = 0.5"
    using assms(4) by (simp add: low_performance_decrease_of_def)
  have "filter ?mine (identify_optimization_opportunities scored)
        = filter (\<lambda>opp. opp_confidence opp \<ge> confidence_threshold)
            (filter ?mine (opportunity_candidates scored))"
    using assms(2) by (simp add: identify_optimization_opportunities_def conj_commute)
  also have "\<dots> = []"
    unfolding c using conf by (simp add: confidence_threshold_def)
  finally show ?thesis using c conf by simp
qed

theorem underperformer_single_candidate_filtered_witness:
  "filter (\<lambda>opp. adset_id (opp_ad_set opp) = 7)
     (opportunity_candidates [demo_scored 3 500 1.3 0.9, demo_scored 7 800 0.5 0.4])
     = [low_performance_decrease_of (demo_scored 7 800 0.5 0.4)]
   \<and> filter (\<lambda>opp. adset_id (opp_ad_set opp) = 7)
     (identify_optimization_opportunities [demo_scored 3 500 1.3 0.9, demo_scored 7 800 0.5 0.4])
     = []"
  using underperformer_single_candidate_filtered
    [of "demo_scored 7 800 0.5 0.4" "[demo_scored 3 500 1.3 0.9, demo_scored 7 800 0.5 0.4]"]
  by (simp add: demo_scored_def demo_ad_set_def)

section \<open>Properties of the redistribution\<close>

lemma decrease_amount_bounds:
  assumes "(0::real) \<le> cb" and "0 \<le> sd"
  shows "0 \<le> min (cb * sd) (cb * max_budget_change_per_day)"
    and "min (cb * sd) (cb * max_budget_change_per_day) \<le> 0.2 * cb"
  using assms by (simp_all add: max_budget_change_per_day_def min_le_iff_disj)

lemma increase_amount_bounds:
  assumes "(0::real) \<le> cb" and "0 \<le> pool" and "0 \<le> w" and "0 < tw"
  shows "0 \<le> min (pool * (w / tw)) (cb * max_budget_change_per_day)"
    and "min (pool * (w / tw)) (cb * max_budget_change_per_day) \<le> 0.2 * cb"
proof -
  from assms have "0 \<le> pool * (w / tw)" by simp
  moreover from assms have "0 \<le> cb * max_budget_change_per_day"
    by (simp add: max_budget_change_per_day_def)
  ultimately show "0 \<le> min (pool * (w / tw)) (cb * max_budget_change_per_day)" by simp
  have "min (pool * (w / tw)) (cb * max_budget_change_per_day) \<le> cb * max_budget_change_per_day"
    by simp
  then show "min (pool * (w / tw)) (cb * max_budget_change_per_day) \<le> 0.2 * cb"
    by (simp add: max_budget_change_per_day_def)
qed

lemma current_allocation_values:
  "fold (\<lambda>a m. m(adset_id (sa_ad_set a) \<mapsto> sa_allocated_budget a)) scored m0 i = Some p \<Longrightarrow>
   m0 i = Some p \<or> (\<exists>a \<in> set scored. p = sa_allocated_budget a)"
  by (induction scored arbitrary: m0) (fastforce split: if_splits)+

lemma decreases_bound:
  assumes "distinct (map (\<lambda>opp. adset_id (opp_ad_set opp))
             (filter (\<lambda>opp. opp_type opp = ''decrease_budget'') opps))"
    and "\<forall>opp \<in> set opps. opp_type opp = ''decrease_budget'' \<longrightarrow>
           (\<exists>sd. suggested_decrease opp = Some sd \<and> 0 \<le> sd)"
    and "\<forall>opp \<in> set opps. opp_type opp = ''decrease_budget'' \<longrightarrow>
           alloc (adset_id (opp_ad_set opp)) = P (adset_id (opp_ad_set opp))
           \<and> P (adset_id (opp_ad_set opp)) \<noteq> None"
    and "\<forall>i p. P i = Some p \<longrightarrow> 0 \<le> p \<and> (\<exists>n. alloc i = Some n \<and> 0.8 * p \<le> n \<and> n \<le> p)"
    and "0 \<le> pool"
  shows "\<exists>alloc' pool'. apply_decreases opps (alloc, pool) = Inr (alloc', pool') \<and> 0 \<le> pool'
           \<and> (\<forall>i p. P i = Some p \<longrightarrow> (\<exists>n. alloc' i = Some n \<and> 0.8 * p \<le> n \<and> n \<le> p))"
  using assms
proof (induction opps arbitrary: alloc pool)
  case Nil
  then show ?case by auto
next
  case (Cons opp opps)
  let ?t = "adset_id (opp_ad_set opp)"
  show ?case
  proof (cases "opp_type opp = ''decrease_budget''")
    case False
    from Cons.prems False have
      "\<exists>alloc' pool'. apply_decreases opps (alloc, pool) = Inr (alloc', pool') \<and> 0 \<le> pool'
           \<and> (\<forall>i p. P i = Some p \<longrightarrow> (\<exists>n. alloc' i = Some n \<and> 0.8 * p \<le> n \<and> n \<le> p))"
      by (intro Cons.IH) auto
    with False show ?thesis by simp
  next
    case True
    with Cons.prems(2) obtain sd where sd: "suggested_decrease opp = Some sd" "0 \<le> sd" by auto
    from True Cons.prems(3) obtain cb where cb: "alloc ?t = Some cb" "P ?t = Some cb" by auto
    with Cons.prems(4) have cb0: "0 \<le> cb" by blast
    define amount where "amount = min (cb * sd) (cb * max_budget_change_per_day)"
    have am: "0 \<le> amount" "amount \<le> 0.2 * cb"
      unfolding amount_def using decrease_amount_bounds [OF cb0 sd(2)] by auto
    let ?alloc = "alloc(?t \<mapsto> cb - amount)"
    have step: "apply_decreases (opp # opps) (alloc, pool) = apply_decreases opps (?alloc, pool + amount)"
      using True sd cb by (simp add: amount_def Let_def)
    have d: "distinct (map (\<lambda>opp. adset_id (opp_ad_set opp))
             (filter (\<lambda>opp. opp_type opp = ''decrease_budget'') opps))"
      and fresh: "\<forall>o' \<in> set opps. opp_type o' = ''decrease_budget'' \<longrightarrow> adset_id (opp_ad_set o') \<noteq> ?t"
      using Cons.prems(1) True by (fastforce simp: image_iff)+
    have p2: "\<forall>opp \<in> set opps. opp_type opp = ''decrease_budget'' \<longrightarrow>
           (\<exists>sd. suggested_decrease opp = Some sd \<and> 0 \<le> sd)"
      using Cons.prems(2) by simp
    have p3: "\<forall>o' \<in> set opps. opp_type o' = ''decrease_budget'' \<longrightarrow>
           ?alloc (adset_id (opp_ad_set o')) = P (adset_id (opp_ad_set o'))
           \<and> P (adset_id (opp_ad_set o')) \<noteq> None"
      using Cons.prems(3) fresh by simp
    have p4: "\<forall>i p. P i = Some p \<longrightarrow> 0 \<le> p \<and> (\<exists>n. ?alloc i = Some n \<and> 0.8 * p \<le> n \<and> n \<le> p)"
    proof (intro allI impI)
      fix i p assume ip: "P i = Some p"
      show "0 \<le> p \<and> (\<exists>n. ?alloc i = Some n \<and> 0.8 * p \<le> n \<and> n \<le> p)"
      proof (cases "i = ?t")
        case True
        with ip cb have "p = cb" by simp
        with True am cb0 show ?thesis by simp
      next
        case False
        with ip Cons.prems(4) show ?thesis by simp
      qed
    qed
    have p5: "0 \<le> pool + amount" using Cons.prems(5) am by simp
    from Cons.IH [OF d p2 p3 p4 p5] show ?thesis
      unfolding step .
  qed
qed

lemma increases_bound:
  assumes "distinct (map (\<lambda>opp. adset_id (opp_ad_set opp)) opps)"
    and "\<forall>opp \<in> set opps. \<exists>si. suggested_increase opp = Some si \<and> 0 \<le> opp_confidence opp * si"
    and "\<forall>opp \<in> set opps. alloc (adset_id (opp_ad_set opp)) = Q (adset_id (opp_ad_set opp))
           \<and> Q (adset_id (opp_ad_set opp)) \<noteq> None"
    and "\<forall>i q. Q i = Some q \<longrightarrow> 0 \<le> q \<and> (\<exists>n. alloc i = Some n \<and> q \<le> n \<and> n \<le> 1.2 * q)"
    and "0 \<le> pool"
  shows "\<exists>alloc'. apply_increases pool tw opps alloc = Inr alloc'
           \<and> (\<forall>i q. Q i = Some q \<longrightarrow> (\<exists>n. alloc' i = Some n \<and> q \<le> n \<and> n \<le> 1.2 * q))"
  using assms
proof (induction opps arbitrary: alloc)
  case Nil
  then show ?case by auto
next
  case (Cons opp opps)
  let ?t = "adset_id (opp_ad_set opp)"
  have d: "distinct (map (\<lambda>opp. adset_id (opp_ad_set opp)) opps)"
    and fresh: "\<forall>o' \<in> set opps. adset_id (opp_ad_set o') \<noteq> ?t"
    using Cons.prems(1) by (fastforce simp: image_iff)+
  have p2: "\<forall>opp \<in> set opps. \<exists>si. suggested_increase opp = Some si \<and> 0 \<le> opp_confidence opp * si"
    using Cons.prems(2) by simp
  show ?case
  proof (cases "tw > 0")
    case False
    have p3: "\<forall>opp \<in> set opps. alloc (adset_id (opp_ad_set opp)) = Q (adset_id (opp_ad_set opp))
           \<and> Q (adset_id (opp_ad_set opp)) \<noteq> None"
      using Cons.prems(3) by simp
    from Cons.IH [OF d p2 p3 Cons.prems(4) Cons.prems(5)] False show ?thesis by simp
  next
    case True
    from Cons.prems(2) obtain si where si: "suggested_increase opp = Some si"
        "0 \<le> opp_confidence opp * si" by auto
    from Cons.prems(3) obtain cb where cb: "alloc ?t = Some cb" "Q ?t = Some cb" by auto
    with Cons.prems(4) have cb0: "0 \<le> cb" by blast
    define amount where "amount = min (pool * (opp_confidence opp * si / tw))
                                      (cb * max_budget_change_per_day)"
    have am: "0 \<le> amount" "amount \<le> 0.2 * cb"
      unfolding amount_def
      using increase_amount_bounds [OF cb0 Cons.prems(5) si(2) True] by auto
    let ?alloc = "alloc(?t \<mapsto> cb + amount)"
    have step: "apply_increases pool tw (opp # opps) alloc = apply_increases pool tw opps ?alloc"
      using True si cb by (simp add: amount_def Let_def)
    have p3: "\<forall>o' \<in> set opps. ?alloc (adset_id (opp_ad_set o')) = Q (adset_id (opp_ad_set o'))
           \<and> Q (adset_id (opp_ad_set o')) \<noteq> None"
      using Cons.prems(3) fresh by simp
    have p4: "\<forall>i q. Q i = Some q \<longrightarrow> 0 \<le> q \<and> (\<exists>n. ?alloc i = Some n \<and> q \<le> n \<and> n \<le> 1.2 * q)"
    proof (intro allI impI)
      fix i q assume iq: "Q i = Some q"
      show "0 \<le> q \<and> (\<exists>n. ?alloc i = Some n \<and> q \<le> n \<and> n \<le> 1.2 * q)"
      proof (cases "i = ?t")
        case True
        with iq cb have "q = cb" by simp
        with True am cb0 show ?thesis by simp
      next
        case False
        with iq Cons.prems(4) show ?thesis by simp
      qed
    qed
    from Cons.IH [OF d p2 p3 p4 Cons.prems(5)] show ?thesis
      unfolding step .
  qed
qed

lemma collect_total:
  "\<forall>x \<in> set xs. \<exists>y. f x = Inr y \<Longrightarrow> \<exists>ys. collect (map f xs) = Inr ys"
  by (induction xs) auto


text \<open>
  C3, as stated, fails for arbitrary opportunity sets: two decrease opportunities for
  the same ad set are each capped at 20% of the budget they find, and together take a
  budget of 1000 to 640, a change of 36%.
\<close>

theorem double_decrease_exceeds_cap_counterexample:
  "map_sum id (\<lambda>alloc. (alloc 1, alloc 2))
     (calculate_optimal_allocation
        [demo_scored 1 1000 0.1 0.2, demo_scored 2 1000 1.0 0.9]
        [low_performance_decrease_of (demo_scored 1 1000 0.1 0.2),
         underutilized_decrease_of (demo_scored 1 1000 0.1 0.2)])
     = Inr (Some 640, Some 1000)
   \<and> current_allocation [demo_scored 1 1000 0.1 0.2, demo_scored 2 1000 1.0 0.9] 1 = Some 1000
   \<and> \<not> \<bar>640 - 1000\<bar> \<le> (0.20 :: real) * 1000"
  by (simp add: calculate_optimal_allocation_def current_allocation_def demo_scored_def
      demo_ad_set_def low_performance_decrease_of_def underutilized_decrease_of_def
      max_budget_change_per_day_def Let_def)

text \<open>
  C3 (as amended). For scored ad sets with budgets that are not negative, and
  opportunities that name scored ad sets, among which no ad set has two decreases or two
  increases, every decrease carries a suggested fraction that is not negative and every
  increase a product of confidence and suggested fraction that is not negative (all of
  which holds of the opportunities that detection produces), the allocation is computed
  without an exception and changes no ad set's budget by more than 20% of its previous
  budget.
\<close>

theorem allocation_within_cap:
  assumes wf: "\<forall>opp \<in> set opportunities.
                 current_allocation scored (adset_id (opp_ad_set opp)) \<noteq> None"
    and dd: "distinct (map (\<lambda>opp. adset_id (opp_ad_set opp))
               (filter (\<lambda>opp. opp_type opp = ''decrease_budget'') opportunities))"
    and di: "distinct (map (\<lambda>opp. adset_id (opp_ad_set opp))
               (filter (\<lambda>opp. opp_type opp = ''increase_budget'') opportunities))"
    and nb: "\<forall>a \<in> set scored. 0 \<le> sa_allocated_budget a"
    and sd0: "\<forall>opp \<in> set opportunities. opp_type opp = ''decrease_budget'' \<longrightarrow>
               (case suggested_decrease opp of None \<Rightarrow> False | Some d \<Rightarrow> 0 \<le> d)"
    and si0: "\<forall>opp \<in> set opportunities. opp_type opp = ''increase_budget'' \<longrightarrow>
               (case suggested_increase opp of None \<Rightarrow> False
                | Some u \<Rightarrow> 0 \<le> opp_confidence opp * u)"
  shows "\<exists>alloc. calculate_optimal_allocation scored opportunities = Inr alloc
           \<and> (\<forall>i p. current_allocation scored i = Some p \<longrightarrow>
                 (\<exists>n. alloc i = Some n \<and> \<bar>n - p\<bar> \<le> 0.20 * p))"
proof -
  let ?P = "current_allocation scored"
  let ?incs = "filter (\<lambda>opp. opp_type opp = ''increase_budget'') opportunities"
  have sd: "\<forall>opp \<in> set opportunities. opp_type opp = ''decrease_budget'' \<longrightarrow>
               (\<exists>d. suggested_decrease opp = Some d \<and> 0 \<le> d)"
    using sd0 by (auto split: option.splits)
  have si: "\<forall>opp \<in> set opportunities. opp_type opp = ''increase_budget'' \<longrightarrow>
               (\<exists>u. suggested_increase opp = Some u \<and> 0 \<le> opp_confidence opp * u)"
    using si0 by (auto split: option.splits)
  have pos: "0 \<le> p" if "?P i = Some p" for i p
    using current_allocation_values [of scored Map.empty i p] that nb
    by (auto simp: current_allocation_def)
  have a3: "\<forall>opp \<in> set opportunities. opp_type opp = ''decrease_budget'' \<longrightarrow>
           ?P (adset_id (opp_ad_set opp)) = ?P (adset_id (opp_ad_set opp))
           \<and> ?P (adset_id (opp_ad_set opp)) \<noteq> None"
    using wf by simp
  have a4: "\<forall>i p. ?P i = Some p \<longrightarrow> 0 \<le> p \<and> (\<exists>n. ?P i = Some n \<and> 0.8 * p \<le> n \<and> n \<le> p)"
    using pos by auto
  from decreases_bound [OF dd sd a3 a4, of 0] obtain alloc1 pool1 where
    dec: "apply_decreases opportunities (?P, 0) = Inr (alloc1, pool1)" and pool1: "0 \<le> pool1"
    and b1: "\<forall>i p. ?P i = Some p \<longrightarrow> (\<exists>n. alloc1 i = Some n \<and> 0.8 * p \<le> n \<and> n \<le> p)"
    by auto
  show ?thesis
  proof (cases "?incs \<noteq> [] \<and> pool1 > 0")
    case False
    with dec have "calculate_optimal_allocation scored opportunities = Inr alloc1"
      by (auto simp: calculate_optimal_allocation_def Let_def)
    moreover have "\<exists>n. alloc1 i = Some n \<and> \<bar>n - p\<bar> \<le> 0.20 * p" if "?P i = Some p" for i p
    proof -
      from b1 that obtain n where n: "alloc1 i = Some n" "0.8 * p \<le> n" "n \<le> p" by blast
      then have "\<bar>n - p\<bar> \<le> 0.20 * p" unfolding abs_le_iff by simp
      with n show ?thesis by blast
    qed
    ultimately show ?thesis by blast
  next
    case True
    have "\<forall>opp \<in> set ?incs. \<exists>y. opportunity_weight opp = Inr y"
      using si by (auto simp: opportunity_weight_def)
    from collect_total [OF this] obtain ws where
      ws: "collect (map opportunity_weight ?incs) = Inr ws" by blast
    define Q where "Q = (\<lambda>i. if ?P i = None then None else alloc1 i)"
    have q2: "\<forall>opp \<in> set ?incs. \<exists>u. suggested_increase opp = Some u \<and> 0 \<le> opp_confidence opp * u"
      using si by simp
    have q3: "\<forall>opp \<in> set ?incs. alloc1 (adset_id (opp_ad_set opp)) = Q (adset_id (opp_ad_set opp))
           \<and> Q (adset_id (opp_ad_set opp)) \<noteq> None"
      using wf b1 by (fastforce simp: Q_def)
    have q4: "\<forall>i q. Q i = Some q \<longrightarrow> 0 \<le> q \<and> (\<exists>n. alloc1 i = Some n \<and> q \<le> n \<and> n \<le> 1.2 * q)"
    proof (intro allI impI)
      fix i q assume iq: "Q i = Some q"
      then obtain p where p: "?P i = Some p" and a: "alloc1 i = Some q"
        by (auto simp: Q_def split: if_splits)
      with b1 have "0.8 * p \<le> q" by fastforce
      with pos [OF p] have "0 \<le> q" by simp
      with a show "0 \<le> q \<and> (\<exists>n. alloc1 i = Some n \<and> q \<le> n \<and> n \<le> 1.2 * q)" by simp
    qed
    from increases_bound [OF di q2 q3 q4 pool1, of "sum_list ws"] obtain alloc2 where
      inc: "apply_increases pool1 (sum_list ws) ?incs alloc1 = Inr alloc2"
      and b2: "\<forall>i q. Q i = Some q \<longrightarrow> (\<exists>n. alloc2 i = Some n \<and> q \<le> n \<and> n \<le> 1.2 * q)"
      by auto
    from True dec ws inc have "calculate_optimal_allocation scored opportunities = Inr alloc2"
      by (simp add: calculate_optimal_allocation_def Let_def)
    moreover have "\<exists>n. alloc2 i = Some n \<and> \<bar>n - p\<bar> \<le> 0.20 * p" if "?P i = Some p" for i p
    proof -
      from b1 that obtain q where q: "alloc1 i = Some q" "0.8 * p \<le> q" "q \<le> p" by blast
      with that have "Q i = Some q" by (simp add: Q_def)
      with b2 obtain n where n: "alloc2 i = Some n" "q \<le> n" "n \<le> 1.2 * q" by blast
      with q have "\<bar>n - p\<bar> \<le> 0.20 * p" unfolding abs_le_iff by simp
      with n show ?thesis by blast
    qed
    ultimately show ?thesis by blast
  qed
qed

theorem allocation_within_cap_witness:
  "\<exists>alloc. calculate_optimal_allocation
        [demo_scored 1 1000 1.5 0.9, demo_scored 2 1000 0.2 0.9]
        [increase_of (demo_scored 1 1000 1.5 0.9),
         low_performance_decrease_of (demo_scored 2 1000 0.2 0.9)] = Inr alloc
     \<and> (\<exists>n. alloc 1 = Some n \<and> \<bar>n - 1000\<bar> \<le> 0.20 * 1000)
     \<and> (\<exists>n. alloc 2 = Some n \<and> \<bar>n - 1000\<bar> \<le> 0.20 * 1000)"
proof -
  let ?scored = "[demo_scored 1 1000 1.5 0.9, demo_scored 2 1000 0.2 0.9]"
  let ?opps = "[increase_of (demo_scored 1 1000 1.5 0.9),
         low_performance_decrease_of (demo_scored 2 1000 0.2 0.9)]"
  have c: "current_allocation ?scored 1 = Some 1000" "current_allocation ?scored 2 = Some 1000"
    by (simp_all add: current_allocation_def demo_scored_def demo_ad_set_def)
  have wf: "\<forall>opp \<in> set ?opps. current_allocation ?scored (adset_id (opp_ad_set opp)) \<noteq> None"
    by (simp add: current_allocation_def demo_scored_def demo_ad_set_def increase_of_def
        low_performance_decrease_of_def)
  have dd: "distinct (map (\<lambda>opp. adset_id (opp_ad_set opp))
               (filter (\<lambda>opp. opp_type opp = ''decrease_budget'') ?opps))"
    by (simp add: increase_of_def low_performance_decrease_of_def)
  have di: "distinct (map (\<lambda>opp. adset_id (opp_ad_set opp))
               (filter (\<lambda>opp. opp_type opp = ''increase_budget'') ?opps))"
    by (simp add: increase_of_def low_performance_decrease_of_def)
  have nb: "\<forall>a \<in> set ?scored. 0 \<le> sa_allocated_budget a"
    by (simp add: demo_scored_def)
  have sd: "\<forall>opp \<in> set ?opps. opp_type opp = ''decrease_budget'' \<longrightarrow>
               (case suggested_decrease opp of None \<Rightarrow> False | Some d \<Rightarrow> 0 \<le> d)"
    by (simp add: increase_of_def low_performance_decrease_of_def demo_scored_def)
  have si: "\<forall>opp \<in> set ?opps. opp_type opp = ''increase_budget'' \<longrightarrow>
               (case suggested_increase opp of None \<Rightarrow> False
                | Some u \<Rightarrow> 0 \<le> opp_confidence opp * u)"
    by (simp add: increase_of_def low_performance_decrease_of_def demo_scored_def)
  from allocation_within_cap [OF wf dd di nb sd si]
  have "\<exists>alloc. calculate_optimal_allocation ?scored ?opps = Inr alloc
           \<and> (\<forall>i p. current_allocation ?scored i = Some p \<longrightarrow>
                 (\<exists>n. alloc i = Some n \<and> \<bar>n - p\<bar> \<le> 0.20 * p))" .
  with c show ?thesis by blast
qed

section \<open>Properties of the apply gate\<close>

text \<open>
  The steps behind the metrics, on scored ad sets: below the threshold nothing is written
  and the below-threshold result is returned. Above it, when no ad set of the campaign
  has budget 0, the loop ends without an exception, exactly one audit record is added, and
  the rows of an ad set whose own change is below 5% of its budget stay as they were.
\<close>

lemma gate_below_threshold:
  assumes "identify_optimization_opportunities scored \<noteq> []"
    and "calculate_optimal_allocation scored (identify_optimization_opportunities scored)
         = Inr new_alloc"
    and "\<not> should_apply_changes db c new_alloc"
  shows "optimize_from_metrics db c scored
         = (db, Opt_failed_reason ''Budget changes below threshold or too risky'')"
  using assms by (simp add: optimize_from_metrics_def Let_def)

lemma save_ad_set_other:
  "adset_id a \<noteq> i \<Longrightarrow>
   filter (\<lambda>x. adset_id x = i) (ad_sets (save_ad_set a db)) = filter (\<lambda>x. adset_id x = i) (ad_sets db)"
proof -
  have "adset_id a \<noteq> i \<Longrightarrow>
        filter (\<lambda>x. adset_id x = i) (map (\<lambda>x. if adset_id x = adset_id a then a else x) xs)
        = filter (\<lambda>x. adset_id x = i) xs" for xs
    by (induction xs) auto
  then show "adset_id a \<noteq> i \<Longrightarrow> ?thesis"
    by (simp add: save_ad_set_def)
qed

lemma write_budgets_own_change:
  assumes "\<forall>a \<in> set todo. adset_id a = i \<longrightarrow>
             \<not> \<bar>get_or (new_alloc i) (allocated_budget a) - allocated_budget a\<bar>
                 \<ge> allocated_budget a * min_budget_change_threshold"
  shows "case write_budgets new_alloc todo db prev changes_made of
           Inl (e, db') \<Rightarrow> filter (\<lambda>x. adset_id x = i) (ad_sets db')
                             = filter (\<lambda>x. adset_id x = i) (ad_sets db)
         | Inr (db', r) \<Rightarrow> filter (\<lambda>x. adset_id x = i) (ad_sets db')
                             = filter (\<lambda>x. adset_id x = i) (ad_sets db)"
  using assms
proof (induction todo arbitrary: db prev changes_made)
  case Nil
  show ?case by simp
next
  case (Cons a rest)
  let ?p = "allocated_budget a"
  let ?n = "get_or (new_alloc (adset_id a)) ?p"
  let ?db = "save_ad_set (a\<lparr>allocated_budget := ?n\<rparr>) db"
  from Cons.prems have rest: "\<forall>a \<in> set rest. adset_id a = i \<longrightarrow>
             \<not> \<bar>get_or (new_alloc i) (allocated_budget a) - allocated_budget a\<bar>
                 \<ge> allocated_budget a * min_budget_change_threshold" by simp
  show ?case
  proof (cases "\<bar>?n - ?p\<bar> \<ge> ?p * min_budget_change_threshold")
    case False
    with Cons.IH [OF rest] show ?thesis by (simp add: Let_def)
  next
    case True
    with Cons.prems have ne: "adset_id a \<noteq> i" by auto
    then have same: "filter (\<lambda>x. adset_id x = i) (ad_sets ?db) = filter (\<lambda>x. adset_id x = i) (ad_sets db)"
      using save_ad_set_other [of "a\<lparr>allocated_budget := ?n\<rparr>" i db] by simp
    show ?thesis
    proof (cases "?p = 0")
      case True
      with \<open>\<bar>?n - ?p\<bar> \<ge> ?p * min_budget_change_threshold\<close> same show ?thesis
        by (simp add: Let_def)
    next
      case False
      define ch where "ch = changes_made @
                         [\<lparr>ch_ad_set = adset_name a, ch_platform = platform_name a,
                           previous_budget = ?p, new_budget = ?n, change_amount = ?n - ?p,
                           change_percentage = (?n - ?p) / ?p * 100\<rparr>]"
      have step: "write_budgets new_alloc (a # rest) db prev changes_made
                  = write_budgets new_alloc rest ?db (prev @ [(adset_id a, ?p)]) ch"
        using False \<open>\<bar>?n - ?p\<bar> \<ge> ?p * min_budget_change_threshold\<close>
        by (simp add: Let_def ch_def)
      from Cons.IH [OF rest, of ?db "prev @ [(adset_id a, ?p)]" ch]
      show ?thesis unfolding step same .
    qed
  qed
qed

lemma save_ad_set_records: "budget_optimizations (save_ad_set a db) = budget_optimizations db"
  by (simp add: save_ad_set_def)

lemma write_budgets_nonzero:
  assumes "\<forall>a \<in> set todo. allocated_budget a \<noteq> 0"
  shows "\<exists>db' prev' changes'. write_budgets new_alloc todo db prev changes_made
            = Inr (db', prev', changes')
          \<and> budget_optimizations db' = budget_optimizations db"
  using assms
proof (induction todo arbitrary: db prev changes_made)
  case Nil
  show ?case by simp
next
  case (Cons a rest)
  let ?p = "allocated_budget a"
  let ?n = "get_or (new_alloc (adset_id a)) ?p"
  let ?db = "save_ad_set (a\<lparr>allocated_budget := ?n\<rparr>) db"
  from Cons.prems have nz: "?p \<noteq> 0" and rest: "\<forall>a \<in> set rest. allocated_budget a \<noteq> 0"
    by simp_all
  show ?case
  proof (cases "\<bar>?n - ?p\<bar> \<ge> ?p * min_budget_change_threshold")
    case False
    with Cons.IH [OF rest, of db "prev @ [(adset_id a, ?p)]" changes_made] show ?thesis
      by (simp add: Let_def)
  next
    case True
    define ch where "ch = changes_made @
                         [\<lparr>ch_ad_set = adset_name a, ch_platform = platform_name a,
                           previous_budget = ?p, new_budget = ?n, change_amount = ?n - ?p,
                           change_percentage = (?n - ?p) / ?p * 100\<rparr>]"
    have step: "write_budgets new_alloc (a # rest) db prev changes_made
                = write_budgets new_alloc rest ?db (prev @ [(adset_id a, ?p)]) ch"
      using True nz by (simp add: Let_def ch_def)
    from Cons.IH [OF rest, of ?db "prev @ [(adset_id a, ?p)]" ch]
    show ?thesis unfolding step by (simp add: save_ad_set_records)
  qed
qed

lemma apply_creates_one_record:
  assumes "\<forall>a \<in> set (campaign_ad_sets db c). allocated_budget a \<noteq> 0"
  shows "\<exists>db' audit rid changes_made expected.
           apply_budget_optimization db c new_alloc opps
             = (db', Optimized rid changes_made expected (length opps))
           \<and> budget_optimizations db' = budget_optimizations db @ [audit]
           \<and> bo_campaign audit = campaign_id c"
proof -
  from write_budgets_nonzero [OF assms, of new_alloc db "[]" "[]"] obtain db1 prev1 ch1 where
    w: "write_budgets new_alloc (campaign_ad_sets db c) db [] [] = Inr (db1, prev1, ch1)"
    and b: "budget_optimizations db1 = budget_optimizations db" by blast
  show ?thesis
    by (simp add: apply_budget_optimization_def w b Let_def)
qed

lemmas budget_simps = zero_budget_scored_def identify_optimization_opportunities_def
  opportunity_candidates_def demo_scored_def underutilized_decrease_of_def
  confidence_threshold_def Let_def calculate_optimal_allocation_def current_allocation_def
  demo_ad_set_def max_budget_change_per_day_def optimize_from_metrics_def
  should_apply_changes_def campaign_ad_sets_def zero_budget_db_def spring_def get_or_def
  min_budget_change_threshold_def apply_budget_optimization_def save_ad_set_def

text \<open>
  The entry point never reaches the gate: the dictionaries of the performance data lack
  the key that the efficiency score reads, so scoring raises \<open>KeyError\<close> on the first
  of them and the operation returns that error with the database as it was.
\<close>

lemma performance_row_unscored: "pd_spend_utilization (performance_row_of rows a) = None"
  by (simp add: performance_row_of_def Let_def)

lemma performance_data_unscored:
  assumes "d \<in> set (get_performance_data now db c)"
  shows "pd_spend_utilization d = None"
proof -
  from assms obtain rows a where "d = performance_row_of rows a"
    unfolding get_performance_data_def Let_def by (auto split: if_splits)
  then show ?thesis by (simp add: performance_row_unscored)
qed

lemma scoring_raises_key_error:
  assumes "performance_data \<noteq> []"
    and "\<forall>d \<in> set performance_data. pd_spend_utilization d = None"
  shows "calculate_performance_metrics performance_data = Inl KeyError"
proof -
  from assms(1) obtain d rest where pd: "performance_data = d # rest"
    by (cases performance_data) auto
  with assms(2) have "pd_spend_utilization d = None" by simp
  then have "score_row av d = Inl KeyError" for av
    by (simp add: score_row_def calculate_efficiency_score_def Let_def)
  then have "collect (map (score_row av) performance_data) = Inl KeyError" for av
    by (simp add: pd)
  with assms(1) show ?thesis
    by (simp add: calculate_performance_metrics_def)
qed

lemma optimize_campaign_budgets_stops_at_scoring:
  "optimize_campaign_budgets now db c
     = (db, if get_performance_data now db c = []
            then Opt_failed_reason ''Insufficient performance data''
            else Opt_failed_error KeyError)"
proof (cases "get_performance_data now db c = []")
  case True
  then show ?thesis by (simp add: optimize_campaign_budgets_def)
next
  case False
  from scoring_raises_key_error [OF False] performance_data_unscored
  have "calculate_performance_metrics (get_performance_data now db c) = Inl KeyError"
    by blast
  with False show ?thesis by (simp add: optimize_campaign_budgets_def)
qed

text \<open>
  C4. The apply gate does not hold. On a campaign with two ad sets of budget 1000 that
  both have performance data, the operation returns a \<open>KeyError\<close> result: neither the
  below-threshold result nor an applied cycle with its audit record, whatever the change
  fraction. And the steps behind the metrics, run on scored ad sets of budgets 1000 and 0,
  compute the allocation 800 and 0, a total change of 20% of the total budget, pass the
  threshold test, write the first budget, and then raise \<open>ZeroDivisionError\<close> on the
  change percentage of the ad set of budget 0: the error is returned, the first budget
  stays written, and no audit record is created.
\<close>

theorem apply_gate_fails:
  "length (get_performance_data (6 * 86400) optimizer_db spring) = 2
   \<and> optimize_campaign_budgets (6 * 86400) optimizer_db spring
       = (optimizer_db, Opt_failed_error KeyError)
   \<and> budget_optimizations (fst (optimize_campaign_budgets (6 * 86400) optimizer_db spring)) = []
   \<and> calculate_optimal_allocation zero_budget_scored
       (identify_optimization_opportunities zero_budget_scored) = Inr [1 \<mapsto> 800, 2 \<mapsto> 0]
   \<and> should_apply_changes zero_budget_db spring [1 \<mapsto> 800, 2 \<mapsto> 0]
   \<and> apply_budget_optimization zero_budget_db spring [1 \<mapsto> 800, 2 \<mapsto> 0]
         (identify_optimization_opportunities zero_budget_scored)
       = (zero_budget_db\<lparr>ad_sets := [demo_ad_set 1 800, demo_ad_set 2 0]\<rparr>,
          Opt_failed_error ZeroDivisionError)
   \<and> optimize_from_metrics zero_budget_db spring zero_budget_scored
       = (zero_budget_db\<lparr>ad_sets := [demo_ad_set 1 800, demo_ad_set 2 0]\<rparr>,
          Opt_failed_error ZeroDivisionError)"
proof -
  have n: "length (get_performance_data (6 * 86400) optimizer_db spring) = 2"
    by (simp add: get_performance_data_def optimizer_db_def spring_def campaign_ad_sets_def
        campaign_window_def date_of_def performance_lookback_days_def demo_ad_set_def Let_def)
  then have ne: "get_performance_data (6 * 86400) optimizer_db spring \<noteq> []"
    by auto
  have e: "optimize_campaign_budgets (6 * 86400) optimizer_db spring
       = (optimizer_db, Opt_failed_error KeyError)"
    using ne by (simp add: optimize_campaign_budgets_stops_at_scoring)
  have r: "budget_optimizations (fst (optimize_campaign_budgets (6 * 86400) optimizer_db spring)) = []"
    unfolding e by (simp add: optimizer_db_def)
  have a: "calculate_optimal_allocation zero_budget_scored
       (identify_optimization_opportunities zero_budget_scored) = Inr [1 \<mapsto> 800, 2 \<mapsto> 0]"
    by (simp add: budget_simps)
  have g: "should_apply_changes zero_budget_db spring [1 \<mapsto> 800, 2 \<mapsto> 0]"
    by (simp add: budget_simps)
  have w: "apply_budget_optimization zero_budget_db spring [1 \<mapsto> 800, 2 \<mapsto> 0]
         (identify_optimization_opportunities zero_budget_scored)
       = (zero_budget_db\<lparr>ad_sets := [demo_ad_set 1 800, demo_ad_set 2 0]\<rparr>,
          Opt_failed_error ZeroDivisionError)"
    by (simp add: budget_simps)
  have t: "optimize_from_metrics zero_budget_db spring zero_budget_scored
       = (zero_budget_db\<lparr>ad_sets := [demo_ad_set 1 800, demo_ad_set 2 0]\<rparr>,
          Opt_failed_error ZeroDivisionError)"
    by (simp add: budget_simps)
  from n e r a g w t show ?thesis by blast
qed

section \<open>Detection feeds the redistribution\<close>

text \<open>
  For scored ad sets with distinct ids, the opportunities that detection returns name
  scored ad sets, hold at most one decrease and one increase for an ad set, and carry
  fractions and confidences that are not negative.
\<close>

lemma current_allocation_defined:
  "x \<in> set scored \<Longrightarrow> current_allocation scored (adset_id (sa_ad_set x)) \<noteq> None"
proof -
  have "(m0 i \<noteq> None \<or> i \<in> (\<lambda>x. adset_id (sa_ad_set x)) ` set scored) \<Longrightarrow>
        fold (\<lambda>a m. m(adset_id (sa_ad_set a) \<mapsto> sa_allocated_budget a)) scored m0 i \<noteq> None"
    for m0 :: "nat \<rightharpoonup> real" and i
    by (induction scored arbitrary: m0) auto
  then show "x \<in> set scored \<Longrightarrow> ?thesis"
    by (simp add: current_allocation_def)
qed

lemma candidate_cases:
  assumes "opp \<in> set (opportunity_candidates scored)"
  shows "(\<exists>x \<in> set scored. opp = increase_of x \<and> performance_score x > 1.2)
       \<or> (\<exists>x \<in> set scored. opp = low_performance_decrease_of x \<and> performance_score x < 0.8)
       \<or> (\<exists>x \<in> set scored. opp = underutilized_decrease_of x \<and> spend_utilization x < 0.6)"
  using assms by (auto simp: opportunity_candidates_def Let_def)

lemma decrease_candidates:
  "filter (\<lambda>opp. opp_type opp = ''decrease_budget'') (opportunity_candidates scored)
   = map low_performance_decrease_of
       (filter (\<lambda>a. performance_score a < 0.8 \<and> spend_utilization a > 0.3) scored)
     @ map underutilized_decrease_of
       (filter (\<lambda>a. spend_utilization a < 0.6 \<and> \<not> performance_score a < 0.8) scored)"
  by (simp add: opportunity_candidates_def Let_def filter_map comp_def increase_of_def
      low_performance_decrease_of_def underutilized_decrease_of_def conj_commute
      cong: filter_cong)

lemma increase_candidates:
  "filter (\<lambda>opp. opp_type opp = ''increase_budget'') (opportunity_candidates scored)
   = map increase_of
       (filter (\<lambda>a. performance_score a > 1.2 \<and> spend_utilization a > 0.8) scored)"
  by (simp add: opportunity_candidates_def Let_def filter_map comp_def increase_of_def
      low_performance_decrease_of_def underutilized_decrease_of_def)

lemma distinct_ids_filter:
  "distinct (map (\<lambda>x. adset_id (sa_ad_set x)) scored) \<Longrightarrow>
   distinct (map (\<lambda>x. adset_id (sa_ad_set x)) (filter Q scored))"
  by (rule distinct_map_filter)

lemma identified_opportunities_well_formed:
  assumes d: "distinct (map (\<lambda>x. adset_id (sa_ad_set x)) scored)"
  shows "(\<forall>opp \<in> set (identify_optimization_opportunities scored).
            current_allocation scored (adset_id (opp_ad_set opp)) \<noteq> None)
       \<and> distinct (map (\<lambda>opp. adset_id (opp_ad_set opp))
            (filter (\<lambda>opp. opp_type opp = ''decrease_budget'')
               (identify_optimization_opportunities scored)))
       \<and> distinct (map (\<lambda>opp. adset_id (opp_ad_set opp))
            (filter (\<lambda>opp. opp_type opp = ''increase_budget'')
               (identify_optimization_opportunities scored)))
       \<and> (\<forall>opp \<in> set (identify_optimization_opportunities scored).
            opp_type opp = ''decrease_budget'' \<longrightarrow>
            (case suggested_decrease opp of None \<Rightarrow> False | Some d \<Rightarrow> 0 \<le> d))
       \<and> (\<forall>opp \<in> set (identify_optimization_opportunities scored).
            opp_type opp = ''increase_budget'' \<longrightarrow>
            (case suggested_increase opp of None \<Rightarrow> False
             | Some u \<Rightarrow> 0 \<le> opp_confidence opp * u))"
proof (cases "length scored < 2")
  case True
  then show ?thesis by (simp add: identify_optimization_opportunities_def)
next
  case False
  let ?keep = "\<lambda>opp. opp_confidence opp \<ge> confidence_threshold"
  let ?tgt = "\<lambda>opp. adset_id (opp_ad_set opp)"
  let ?idf = "\<lambda>x. adset_id (sa_ad_set x)"
  from False have id: "identify_optimization_opportunities scored
      = filter ?keep (opportunity_candidates scored)"
    by (simp add: identify_optimization_opportunities_def)
  have sub: "set (identify_optimization_opportunities scored) \<subseteq> set (opportunity_candidates scored)"
    by (auto simp: id)
  have p1: "\<forall>opp \<in> set (identify_optimization_opportunities scored).
            current_allocation scored (adset_id (opp_ad_set opp)) \<noteq> None"
  proof
    fix opp assume "opp \<in> set (identify_optimization_opportunities scored)"
    with sub have "opp \<in> set (opportunity_candidates scored)" by blast
    from candidate_cases [OF this] obtain x where "x \<in> set scored" "opp_ad_set opp = sa_ad_set x"
      by (auto simp: increase_of_def low_performance_decrease_of_def underutilized_decrease_of_def)
    then show "current_allocation scored (adset_id (opp_ad_set opp)) \<noteq> None"
      using current_allocation_defined by simp
  qed
  let ?L = "filter (\<lambda>a. performance_score a < 0.8 \<and> spend_utilization a > 0.3) scored"
  let ?U = "filter (\<lambda>a. spend_utilization a < 0.6 \<and> \<not> performance_score a < 0.8) scored"
  have tl: "map ?tgt (map low_performance_decrease_of xs) = map ?idf xs" for xs
    by (simp add: low_performance_decrease_of_def)
  have tu: "map ?tgt (map underutilized_decrease_of xs) = map ?idf xs" for xs
    by (simp add: underutilized_decrease_of_def)
  have ti: "map ?tgt (map increase_of xs) = map ?idf xs" for xs
    by (simp add: increase_of_def)
  have inj: "inj_on ?idf (set scored)" using d by (simp add: distinct_map)
  have disj: "?idf ` set ?L \<inter> ?idf ` set ?U = {}"
  proof (rule ccontr)
    assume "?idf ` set ?L \<inter> ?idf ` set ?U \<noteq> {}"
    then obtain x y where x: "x \<in> set ?L" and y: "y \<in> set ?U" and e: "?idf x = ?idf y" by auto
    from x y have "x \<in> set scored" "y \<in> set scored" by auto
    with inj e have "x = y" by (auto dest: inj_onD)
    with x y show False by auto
  qed
  have dall: "distinct (map ?tgt (filter (\<lambda>opp. opp_type opp = ''decrease_budget'')
                 (opportunity_candidates scored)))"
    unfolding decrease_candidates map_append tl tu
    using distinct_ids_filter [OF d] disj by (simp add: distinct_append del: set_filter)
  have e2: "filter (\<lambda>opp. opp_type opp = ''decrease_budget'') (identify_optimization_opportunities scored)
        = filter ?keep (filter (\<lambda>opp. opp_type opp = ''decrease_budget'') (opportunity_candidates scored))"
    by (simp add: id conj_commute)
  have p2: "distinct (map ?tgt (filter (\<lambda>opp. opp_type opp = ''decrease_budget'')
               (identify_optimization_opportunities scored)))"
    unfolding e2 using dall by (rule distinct_map_filter)
  have iall: "distinct (map ?tgt (filter (\<lambda>opp. opp_type opp = ''increase_budget'')
                 (opportunity_candidates scored)))"
    unfolding increase_candidates ti using distinct_ids_filter [OF d] by simp
  have e3: "filter (\<lambda>opp. opp_type opp = ''increase_budget'') (identify_optimization_opportunities scored)
        = filter ?keep (filter (\<lambda>opp. opp_type opp = ''increase_budget'') (opportunity_candidates scored))"
    by (simp add: id conj_commute)
  have p3: "distinct (map ?tgt (filter (\<lambda>opp. opp_type opp = ''increase_budget'')
               (identify_optimization_opportunities scored)))"
    unfolding e3 using iall by (rule distinct_map_filter)
  have p4: "\<forall>opp \<in> set (identify_optimization_opportunities scored).
            opp_type opp = ''decrease_budget'' \<longrightarrow>
            (case suggested_decrease opp of None \<Rightarrow> False | Some d \<Rightarrow> 0 \<le> d)"
  proof (intro ballI impI)
    fix opp assume "opp \<in> set (identify_optimization_opportunities scored)"
      and ty: "opp_type opp = ''decrease_budget''"
    with sub have "opp \<in> set (opportunity_candidates scored)" by blast
    from candidate_cases [OF this] ty
    show "case suggested_decrease opp of None \<Rightarrow> False | Some d \<Rightarrow> 0 \<le> d"
      by (auto simp: increase_of_def low_performance_decrease_of_def underutilized_decrease_of_def)
  qed
  have p5: "\<forall>opp \<in> set (identify_optimization_opportunities scored).
            opp_type opp = ''increase_budget'' \<longrightarrow>
            (case suggested_increase opp of None \<Rightarrow> False
             | Some u \<Rightarrow> 0 \<le> opp_confidence opp * u)"
  proof (intro ballI impI)
    fix opp assume "opp \<in> set (identify_optimization_opportunities scored)"
      and ty: "opp_type opp = ''increase_budget''"
    with sub have "opp \<in> set (opportunity_candidates scored)" by blast
    from candidate_cases [OF this] ty obtain x where x: "opp = increase_of x" "performance_score x > 1.2"
      by (auto simp: low_performance_decrease_of_def underutilized_decrease_of_def)
    then have "0 \<le> min (performance_score x / 1.5) 1.0" "0 \<le> min 0.2 (performance_score x - 1.0)"
      by simp_all
    then have "0 \<le> min (performance_score x / 1.5) 1.0 * min 0.2 (performance_score x - 1.0)"
      by (rule mult_nonneg_nonneg)
    with x show "case suggested_increase opp of None \<Rightarrow> False
             | Some u \<Rightarrow> 0 \<le> opp_confidence opp * u"
      by (simp add: increase_of_def)
  qed
  from p1 p2 p3 p4 p5 show ?thesis by blast
qed

end
